theory Spec2Isabelle
  imports Main "HOL-Library.Word" "HOL-Library.Monad_Syntax"
begin

unbundle bit_operations_syntax

section \<open>The APBA controller of src/apba.c, as a shallow embedding\<close>

text \<open>
  The driver is stateful C on top of kernel services. The embedding keeps the driver's own
  logic and makes everything else explicit:
  \<^item> the controller object and the driver's globals are a record \<open>sys\<close>, passed in and
    returned updated;
  \<^item> every call that leaves the driver (GPIO, UART transport, clock, pin control, MTD,
    slave power, work queue, completions) is appended to \<open>trace\<close>, in program order;
  \<^item> every value the driver receives from outside (return codes, the MTD table, the
    outcome of a timed wait, constants of headers that are not part of the sources) is a
    field of the record \<open>env\<close>;
  \<^item> a pointer to bytes is a function from offsets to bytes, its length a separate
    argument, as in C;
  \<^item> a read outside a fixed-size array of the controller object is the result \<open>None\<close>.
\<close>

subsection \<open>Machine types and constants\<close>

type_synonym u8 = "8 word"
type_synonym u16 = "16 word"
type_synonym u32 = "32 word"

text \<open>The bytes found at a pointer, by offset from it.\<close>
type_synonym mem = "nat \<Rightarrow> u8"

definition APBA_NUM_GPIOS :: nat where
  "APBA_NUM_GPIOS = 8"

definition APBA_MAX_SEQ :: nat where
  "APBA_MAX_SEQ = APBA_NUM_GPIOS * 3 * 2"

definition APBE_RESET_DELAY :: nat where
  "APBE_RESET_DELAY = 250"

text \<open>\<open>SZ_16K\<close> of the kernel.\<close>
definition APBA_LOG_SIZE :: nat where
  "APBA_LOG_SIZE = 16384"

definition APBA_LOG_REQ_TIMEOUT :: nat where
  "APBA_LOG_REQ_TIMEOUT = 1000"

definition APBA_MODE_REQ_TIMEOUT :: nat where
  "APBA_MODE_REQ_TIMEOUT = 1000"

definition APBA_BAUD_REQ_TIMEOUT :: nat where
  "APBA_BAUD_REQ_TIMEOUT = 1000"

text \<open>
  Modelled from the spec: \<open>PAGE_SIZE\<close> is the kernel's and is not defined under src;
  the specification gives one page as 4096 bytes.
\<close>
definition PAGE_SIZE :: nat where
  "PAGE_SIZE = 4096"

text \<open>The errno values of the kernel that the driver returns negated.\<close>
definition EIO :: int where "EIO = 5"
definition EAGAIN :: int where "EAGAIN = 11"
definition ENODEV :: int where "ENODEV = 19"
definition EINVAL :: int where "EINVAL = 22"

text \<open>\<open>MTD_ABSENT\<close> of the kernel's MTD ABI.\<close>
definition MTD_ABSENT :: nat where
  "MTD_ABSENT = 0"

text \<open>The anonymous enum of interrupt reasons.\<close>
definition APBA_INT_REASON_NONE :: u16 where "APBA_INT_REASON_NONE = 0"
definition APBA_INT_APBE_ON :: u16 where "APBA_INT_APBE_ON = 1"
definition APBA_INT_APBE_RESET :: u16 where "APBA_INT_APBE_RESET = 2"
definition APBA_INT_APBE_CONNECTED :: u16 where "APBA_INT_APBE_CONNECTED = 3"
definition APBA_INT_APBE_DISCONNECTED :: u16 where "APBA_INT_APBE_DISCONNECTED = 4"

subsection \<open>Data\<close>

text \<open>\<open>struct apba_seq\<close>: \<open>val\<close> is the array of \<open>APBA_MAX_SEQ\<close> words.\<close>
record apba_seq =
  val :: "u32 list"
  len :: nat

text \<open>
  \<open>struct apba_ctrl\<close>. The handles that the driver only passes on (\<open>dev\<close>, \<open>mclk\<close>,
  \<open>pinctrl\<close> and its default state, \<open>irq\<close>, the labels) and the kernel objects
  (\<open>log_mutex\<close>, the three completions) have no field; \<open>mods_uart\<close> is \<open>None\<close> for
  \<open>NULL\<close>, and \<open>pinctrl_state_active\<close> is \<open>False\<close> when \<open>IS_ERR\<close> holds of it.
\<close>
record apba_ctrl =
  gpio_cnt :: int
  gpios :: "int list"
  int_index :: int
  enable_seq :: apba_seq
  disable_seq :: apba_seq
  wake_assert_seq :: apba_seq
  wake_deassert_seq :: apba_seq
  flash_start_seq :: apba_seq
  flash_end_seq :: apba_seq
  pinctrl_state_active :: bool
  mods_uart :: "nat option"
  desired_on :: int
  master_intf :: u8
  mode :: u8
  flash_dev_populated :: bool

text \<open>
  There is one controller object; a \<open>struct apba_ctrl *\<close> is \<open>NULL\<close> or points to it.
\<close>
datatype ctrl_ptr = NULL | CTRL

text \<open>
  The message types that \<open>apba_handle_message\<close> and the requests name. The enum that
  gives them their 16-bit codes is declared in a header that is not under src, so the
  codes are read through \<open>msg_type_of\<close> of the environment; \<open>APBA_CTRL_OTHER\<close> is every
  code that is none of the named ones.
\<close>
datatype ctrl_msg_type =
    APBA_CTRL_INT_REASON
  | APBA_CTRL_PM_WAKE_ACK
  | APBA_CTRL_PM_SLEEP_ACK
  | APBA_CTRL_PM_SLEEP_IND
  | APBA_CTRL_LOG_IND
  | APBA_CTRL_LOG_REQUEST
  | APBA_CTRL_BAUD_REQUEST
  | APBA_CTRL_BAUD_ACK
  | APBA_CTRL_MODE_REQUEST
  | APBA_CTRL_OTHER

datatype slave_power = MB_CONTROL_SLAVE_POWER_OFF | MB_CONTROL_SLAVE_POWER_ON

text \<open>The completions \<open>comp\<close>, \<open>baud_comp\<close> and \<open>mode_comp\<close> of the controller.\<close>
datatype completion = COMP | BAUD_COMP | MODE_COMP

text \<open>\<open>struct mtd_info\<close>, with its three driver entry points as functions of their
  arguments: \<open>m_erase addr len\<close> is the return code, \<open>m_read from len\<close> is the return
  code, \<open>retlen\<close> and the buffer as the read leaves it, \<open>m_write to len data\<close> is the
  return code.\<close>
record mtd_info =
  mtd_type :: nat
  mtd_name :: string
  mtd_size :: nat
  m_erase :: "nat \<Rightarrow> nat \<Rightarrow> int"
  m_read :: "nat \<Rightarrow> nat \<Rightarrow> int \<times> nat \<times> mem"
  m_write :: "nat \<Rightarrow> nat \<Rightarrow> mem \<Rightarrow> int"

text \<open>\<open>struct firmware\<close>: \<open>fw_data\<close> is the memory at the pointer \<open>data\<close>, of which the
  first \<open>fw_size\<close> bytes are the image.\<close>
record firmware =
  fw_size :: nat
  fw_data :: mem

text \<open>The calls that leave the driver.\<close>
datatype event =
    Gpio_set_value int int
  | Usleep_range_ms nat
  | Msleep nat
  | Mods_ext_bus_vote bool
  | Mods_uart_open
  | Mods_uart_close
  | Mods_uart_pm_on bool
  | Pinctrl_select_active
  | Pinctrl_select_default
  | Muc_register_spi_flash
  | Muc_deregister_spi_flash
  | Of_platform_device_create
  | Of_platform_depopulate
  | Get_mtd_device nat
  | Put_mtd_device string
  | Mtd_erase string nat nat
  | Mtd_read string nat nat
  | Mtd_write string nat nat
  | Mods_slave_ctrl_power u8 slave_power
  | Schedule_attach_work int
  | Mod_attach int
  | Clk_prepare_enable
  | Clk_disable_unprepare
  | Mods_uart_apba_send ctrl_msg_type "u8 list"
  | Wait_for_completion_timeout completion nat
  | Complete completion
  | Mods_uart_lock_tx bool
  | Mods_uart_update_baud u32
  | Mods_uart_pm_handle_events ctrl_msg_type

text \<open>
  What the driver receives from outside. \<open>APBA_MSG_SIZE_MAX\<close> and the codes of the
  message types come from headers that are not under src. \<open>wait_result\<close> is what
  \<open>wait_for_completion_timeout\<close> returns: 0 when the time ran out, the remaining time
  otherwise. \<open>kstrtoul\<close> is \<open>None\<close> when the kernel's parser returns a negative code.
\<close>
record env =
  APBA_MSG_SIZE_MAX :: nat
  msg_type_of :: "u16 \<Rightarrow> ctrl_msg_type"
  gpio_is_valid :: "int \<Rightarrow> bool"
  get_mtd_device :: "nat \<Rightarrow> mtd_info option"
  kmalloc_ok :: bool
  transports_node :: bool
  spi_transfer_node :: bool
  device_create_ok :: bool
  clk_prepare_enable :: int
  kstrtoul :: "string \<Rightarrow> nat option"
  send_result :: "ctrl_msg_type \<Rightarrow> int"
  wait_result :: "completion \<Rightarrow> nat"

text \<open>
  The state: the controller object, the global pointer \<open>g_ctrl\<close>, the log FIFO
  (oldest byte first; the kernel's kfifo of \<open>APBA_LOG_SIZE\<close> bytes), and the trace.
  \<open>powered\<close> and \<open>flash_mode\<close> record which of \<open>apba_on\<close> and \<open>apba_flash_on\<close> ran
  last, and with which argument.
\<close>
record sys =
  ctrl_obj :: apba_ctrl
  g_ctrl :: ctrl_ptr
  apba_log_fifo :: "u8 list"
  powered :: bool
  flash_mode :: bool
  trace :: "event list"

definition emit :: "event list \<Rightarrow> sys \<Rightarrow> sys" where
  "emit evs s = s\<lparr>trace := trace s @ evs\<rparr>"

subsection \<open>The GPIO sequencer: \<open>apba_seq\<close>\<close>

text \<open>A read of a fixed-size array: \<open>None\<close> outside it.\<close>
definition arr :: "'a list \<Rightarrow> nat \<Rightarrow> 'a option" where
  "arr xs i = (if i < length xs then Some (xs ! i) else None)"

text \<open>
  The body of the loop for one triple. \<open>ARRAY_SIZE(ctrl->gpios)\<close> is \<open>APBA_NUM_GPIOS\<close>.
  The delay is passed to \<open>usleep_range\<close> as \<open>delay * 1000\<close> microseconds; the event
  keeps the milliseconds of the triple.
\<close>
definition seq_step :: "env \<Rightarrow> apba_ctrl \<Rightarrow> u32 \<Rightarrow> u32 \<Rightarrow> u32 \<Rightarrow> event list option" where
  "seq_step e c index value delay =
     (let sleep = (if delay \<noteq> 0 then [Usleep_range_ms (unat delay)] else [])
      in if unat index < APBA_NUM_GPIOS
         then (case arr (gpios c) (unat index) of
                 None \<Rightarrow> None
               | Some gpio \<Rightarrow>
                   Some ((if gpio_is_valid e gpio then [Gpio_set_value gpio (sint value)] else [])
                         @ sleep))
         else Some sleep)"

function apba_seq_loop :: "env \<Rightarrow> apba_ctrl \<Rightarrow> apba_seq \<Rightarrow> nat \<Rightarrow> event list option" where
  "apba_seq_loop e c q i =
     (if i < len q
      then (case (arr (val q) i, arr (val q) (i + 1), arr (val q) (i + 2)) of
              (Some index, Some value, Some delay) \<Rightarrow>
                (case seq_step e c index value delay of
                   None \<Rightarrow> None
                 | Some evs \<Rightarrow> map_option ((@) evs) (apba_seq_loop e c q (i + 3)))
            | _ \<Rightarrow> None)
      else Some [])"
  by pat_completeness auto
termination
  by (relation "measure (\<lambda>(e, c, q, i). len q - i)") auto

declare apba_seq_loop.simps [simp del]

definition apba_seq :: "env \<Rightarrow> apba_seq \<Rightarrow> sys \<Rightarrow> sys option" where
  "apba_seq e q s = map_option (\<lambda>evs. emit evs s) (apba_seq_loop e (ctrl_obj s) q 0)"

text \<open>The triples of a sequence, first to last.\<close>
definition seq_triples :: "apba_seq \<Rightarrow> (u32 \<times> u32 \<times> u32) list" where
  "seq_triples q =
     map (\<lambda>k. (val q ! (3 * k), val q ! (3 * k + 1), val q ! (3 * k + 2))) [0..<len q div 3]"

text \<open>What \<open>apba_parse_seq\<close> and the array sizes guarantee of a loaded sequence.\<close>
definition seq_ok :: "apba_seq \<Rightarrow> bool" where
  "seq_ok q \<longleftrightarrow> len q \<le> length (val q) \<and> len q mod 3 = 0"


subsection \<open>Power and flash mode: \<open>apba_on\<close>, \<open>apba_flash_on\<close>\<close>

definition apba_on :: "env \<Rightarrow> bool \<Rightarrow> sys \<Rightarrow> sys option" where
  "apba_on e on s0 =
     (let s1 = emit [Mods_ext_bus_vote on] s0
      in if on
         then do {
           let s2 = (if mods_uart (ctrl_obj s1) \<noteq> None then emit [Mods_uart_open] s1 else s1);
           s3 \<leftarrow> apba_seq e (enable_seq (ctrl_obj s2)) s2;
           let s4 = (if mods_uart (ctrl_obj s3) \<noteq> None then emit [Mods_uart_pm_on True] s3 else s3);
           Some (s4\<lparr>powered := True\<rparr>)
         }
         else do {
           let s2 = s1\<lparr>ctrl_obj := (ctrl_obj s1)\<lparr>mode := 0\<rparr>\<rparr>;
           s3 \<leftarrow> apba_seq e (disable_seq (ctrl_obj s2)) s2;
           let s4 = (if mods_uart (ctrl_obj s3) \<noteq> None
                     then emit [Mods_uart_pm_on False, Mods_uart_close] s3 else s3);
           Some (s4\<lparr>powered := False\<rparr>)
         })"

definition populate_transports_node :: "env \<Rightarrow> sys \<Rightarrow> sys" where
  "populate_transports_node e s =
     (if \<not> transports_node e then s
      else if \<not> spi_transfer_node e then s
      else let s1 = emit [Of_platform_device_create] s
           in if \<not> device_create_ok e then s1
              else s1\<lparr>ctrl_obj := (ctrl_obj s1)\<lparr>flash_dev_populated := True\<rparr>\<rparr>)"

definition apba_flash_on :: "env \<Rightarrow> bool \<Rightarrow> sys \<Rightarrow> sys option" where
  "apba_flash_on e on s0 =
     (if on
      then do {
        let s1 = (if pinctrl_state_active (ctrl_obj s0) then emit [Pinctrl_select_active] s0 else s0);
        s2 \<leftarrow> apba_seq e (flash_start_seq (ctrl_obj s1)) s1;
        let s3 = emit [Muc_register_spi_flash] s2;
        Some ((populate_transports_node e s3)\<lparr>flash_mode := True\<rparr>)
      }
      else do {
        let s1 = (if flash_dev_populated (ctrl_obj s0)
                  then (emit [Of_platform_depopulate] s0)
                         \<lparr>ctrl_obj := (ctrl_obj s0)\<lparr>flash_dev_populated := False\<rparr>\<rparr>
                  else s0);
        s2 \<leftarrow> apba_seq e (flash_end_seq (ctrl_obj s1)) s1;
        Some ((emit [Muc_deregister_spi_flash, Pinctrl_select_default] s2)\<lparr>flash_mode := False\<rparr>)
      })"

subsection \<open>The firmware pipeline\<close>

text \<open>The parameters \<open>start\<close> and \<open>len\<close> are \<open>unsigned int\<close>.\<close>
definition apba_mtd_erase :: "mtd_info \<Rightarrow> nat \<Rightarrow> nat \<Rightarrow> sys \<Rightarrow> int \<times> sys" where
  "apba_mtd_erase m start len' s =
     (let a = start mod 2 ^ 32; l = len' mod 2 ^ 32
      in (m_erase m a l, emit [Mtd_erase (mtd_name m) a l] s))"

function mtd_loop :: "env \<Rightarrow> string \<Rightarrow> nat \<Rightarrow> sys \<Rightarrow> mtd_info option \<times> sys" where
  "mtd_loop e partition_name num s =
     (if num < 16
      then (let s1 = emit [Get_mtd_device num] s
            in case get_mtd_device e num of
                 None \<Rightarrow> mtd_loop e partition_name (num + 1) s1
               | Some m \<Rightarrow>
                   if mtd_type m = MTD_ABSENT
                   then mtd_loop e partition_name (num + 1) (emit [Put_mtd_device (mtd_name m)] s1)
                   else if mtd_name m \<noteq> partition_name
                   then mtd_loop e partition_name (num + 1) (emit [Put_mtd_device (mtd_name m)] s1)
                   else (Some m, s1))
      else (None, s))"
  by pat_completeness auto
termination
  by (relation "measure (\<lambda>(e, p, num, s). 16 - num)") auto

declare mtd_loop.simps [simp del]

definition apba_init_mtd_module :: "env \<Rightarrow> string \<Rightarrow> sys \<Rightarrow> mtd_info option \<times> sys" where
  "apba_init_mtd_module e partition_name s = mtd_loop e partition_name 0 s"

text \<open>The label \<open>no_mtd\<close> of both partition operations, with the value of \<open>err\<close>.\<close>
definition no_mtd :: "env \<Rightarrow> int \<Rightarrow> sys \<Rightarrow> (int \<times> sys) option" where
  "no_mtd e err s = do {
     s1 \<leftarrow> apba_flash_on e False s;
     s2 \<leftarrow> (if desired_on (ctrl_obj s1) \<noteq> 0 then apba_on e True s1 else Some s1);
     Some (err, s2)
   }"

text \<open>The label \<open>cleanup\<close> of both partition operations; it falls through to \<open>no_mtd\<close>.\<close>
definition cleanup :: "env \<Rightarrow> mtd_info \<Rightarrow> int \<Rightarrow> sys \<Rightarrow> (int \<times> sys) option" where
  "cleanup e m err s = no_mtd e err (emit [Put_mtd_device (mtd_name m)] s)"

definition apba_erase_partition :: "env \<Rightarrow> ctrl_ptr \<Rightarrow> string \<Rightarrow> sys \<Rightarrow> (int \<times> sys) option" where
  "apba_erase_partition e ctrl partition_name s =
     (if ctrl = NULL then Some (- EINVAL, s)
      else do {
        s1 \<leftarrow> apba_on e False s;
        s2 \<leftarrow> apba_flash_on e True s1;
        case apba_init_mtd_module e partition_name s2 of
          (None, s3) \<Rightarrow> no_mtd e (- ENODEV) s3
        | (Some m, s3) \<Rightarrow>
            (case apba_mtd_erase m 0 (mtd_size m) s3 of
               (err, s4) \<Rightarrow> cleanup e m err s4)
      })"

text \<open>\<open>memcmp\<close> of the C library on the first \<open>n\<close> bytes, from offset \<open>i\<close> on: 0 when they
  agree, otherwise the difference of the first two bytes that differ.\<close>
primrec memcmp_from :: "mem \<Rightarrow> mem \<Rightarrow> nat \<Rightarrow> nat \<Rightarrow> int" where
  "memcmp_from a b i 0 = 0"
| "memcmp_from a b i (Suc n) =
     (if a i = b i then memcmp_from a b (Suc i) n else uint (a i) - uint (b i))"

definition memcmp :: "mem \<Rightarrow> mem \<Rightarrow> nat \<Rightarrow> int" where
  "memcmp a b n = memcmp_from a b 0 n"

definition apba_compare_partition :: "env \<Rightarrow> mtd_info \<Rightarrow> firmware \<Rightarrow> sys \<Rightarrow> int \<times> sys" where
  "apba_compare_partition e m fw s =
     (if \<not> kmalloc_ok e then (1, s)
      else (case m_read m 0 PAGE_SIZE of
              (err, retlen, ffff) \<Rightarrow>
                (let s1 = emit [Mtd_read (mtd_name m) 0 PAGE_SIZE] s
                 in if err < 0 then (1, s1)
                    else if retlen < PAGE_SIZE then (1, s1)
                    else (memcmp ffff (fw_data fw) PAGE_SIZE, s1))))"

definition apba_flash_partition ::
  "env \<Rightarrow> ctrl_ptr \<Rightarrow> string \<Rightarrow> firmware option \<Rightarrow> sys \<Rightarrow> (int \<times> sys) option" where
  "apba_flash_partition e ctrl partition_name fwp s =
     (case fwp of
        None \<Rightarrow> Some (- EINVAL, s)
      | Some fw \<Rightarrow>
          if ctrl = NULL then Some (- EINVAL, s)
          else do {
            s1 \<leftarrow> apba_on e False s;
            s2 \<leftarrow> apba_flash_on e True s1;
            case apba_init_mtd_module e partition_name s2 of
              (None, s3) \<Rightarrow> no_mtd e (- ENODEV) s3
            | (Some m, s3) \<Rightarrow>
                (case apba_compare_partition e m fw s3 of
                   (compare_result, s4) \<Rightarrow>
                     if compare_result = 0 then cleanup e m 0 s4
                     else (case apba_mtd_erase m 0 (mtd_size m) s4 of
                             (err, s5) \<Rightarrow>
                               if err < 0 then cleanup e m err s5
                               else cleanup e m (m_write m 0 (fw_size fw) (fw_data fw))
                                      (emit [Mtd_write (mtd_name m) 0 (fw_size fw)] s5)))
          })"


subsection \<open>The log FIFO\<close>

text \<open>
  The kernel's kfifo of \<open>APBA_LOG_SIZE\<close> bytes, as the list of the bytes it holds, oldest
  first: \<open>kfifo_out\<close> takes at most what is stored, \<open>kfifo_in\<close> puts at most what is free.
  Both return the number of bytes moved.
\<close>
definition kfifo_len :: "u8 list \<Rightarrow> nat" where
  "kfifo_len fifo = length fifo"

definition kfifo_out :: "u8 list \<Rightarrow> nat \<Rightarrow> nat \<times> u8 list \<times> u8 list" where
  "kfifo_out fifo n =
     (let l = min n (kfifo_len fifo) in (l, take l fifo, drop l fifo))"

definition kfifo_in :: "u8 list \<Rightarrow> mem \<Rightarrow> nat \<Rightarrow> nat \<times> u8 list" where
  "kfifo_in fifo buf n =
     (let l = min n (APBA_LOG_SIZE - kfifo_len fifo) in (l, fifo @ map buf [0..<l]))"

subsection \<open>Messages\<close>

text \<open>
  Modelled from the spec: \<open>struct apba_ctrl_msg_hdr\<close> is declared in a header that is not
  under src; the specification gives it as type (u16) then size (u16), little-endian,
  4 bytes. The packed structures of src/apba.c put their fields right after it.
\<close>
definition sizeof_apba_ctrl_msg_hdr :: nat where
  "sizeof_apba_ctrl_msg_hdr = 4"

definition sizeof_apba_ctrl_int_reason_resp :: nat where
  "sizeof_apba_ctrl_int_reason_resp = sizeof_apba_ctrl_msg_hdr + 2"

definition sizeof_apba_baud_ack :: nat where
  "sizeof_apba_baud_ack = sizeof_apba_ctrl_msg_hdr + 4 + 1"

definition le16_to_cpu :: "mem \<Rightarrow> nat \<Rightarrow> u16" where
  "le16_to_cpu p off = ucast (p off) OR push_bit 8 (ucast (p (off + 1)))"

definition le32_to_cpu :: "mem \<Rightarrow> nat \<Rightarrow> u32" where
  "le32_to_cpu p off =
     ucast (p off) OR push_bit 8 (ucast (p (off + 1)))
       OR push_bit 16 (ucast (p (off + 2))) OR push_bit 24 (ucast (p (off + 3)))"

definition cpu_to_le32 :: "u32 \<Rightarrow> u8 list" where
  "cpu_to_le32 w = [ucast w, ucast (drop_bit 8 w), ucast (drop_bit 16 w), ucast (drop_bit 24 w)]"

text \<open>The fields of the header and of \<open>struct apba_baud_ack\<close>, by their offsets. The
  driver reads \<open>size\<close> without \<open>le16_to_cpu\<close>; the two agree on a little-endian CPU.\<close>
definition hdr_type :: "mem \<Rightarrow> u16" where
  "hdr_type p = le16_to_cpu p 0"

definition hdr_size :: "mem \<Rightarrow> u16" where
  "hdr_size p = le16_to_cpu p 2"

definition baud_ack_baud :: "mem \<Rightarrow> u32" where
  "baud_ack_baud p = le32_to_cpu p sizeof_apba_ctrl_msg_hdr"

definition baud_ack_accepted :: "mem \<Rightarrow> u8" where
  "baud_ack_accepted p = p (sizeof_apba_ctrl_msg_hdr + 4)"

subsection \<open>The interrupt dispatcher\<close>

definition apba_notify_abpe_attach :: "env \<Rightarrow> int \<Rightarrow> sys \<Rightarrow> sys" where
  "apba_notify_abpe_attach e present s =
     (if g_ctrl s = NULL then s
      else if \<not> kmalloc_ok e then s
      else emit [Schedule_attach_work present] s)"

definition apba_action_on_int_reason :: "env \<Rightarrow> u16 \<Rightarrow> sys \<Rightarrow> sys" where
  "apba_action_on_int_reason e reason s =
     (if g_ctrl s = NULL \<or> master_intf (ctrl_obj s) = 0 then s
      else if reason = APBA_INT_APBE_ON
      then emit [Mods_slave_ctrl_power (master_intf (ctrl_obj s)) MB_CONTROL_SLAVE_POWER_ON] s
      else if reason = APBA_INT_APBE_RESET
      then emit [Mods_slave_ctrl_power (master_intf (ctrl_obj s)) MB_CONTROL_SLAVE_POWER_OFF,
                 Msleep APBE_RESET_DELAY,
                 Mods_slave_ctrl_power (master_intf (ctrl_obj s)) MB_CONTROL_SLAVE_POWER_ON] s
      else if reason = APBA_INT_APBE_CONNECTED
      then apba_notify_abpe_attach e 1 s
      else if reason = APBA_INT_APBE_DISCONNECTED
      then apba_notify_abpe_attach e 0
             (emit [Mods_slave_ctrl_power (master_intf (ctrl_obj s)) MB_CONTROL_SLAVE_POWER_OFF] s)
      else s)"

subsection \<open>Inbound messages: \<open>apba_handle_message\<close>\<close>

text \<open>
  The branch of \<open>APBA_CTRL_LOG_IND\<close>. The sum is computed in \<open>unsigned int\<close> and stored
  in the \<open>int\<close> variable \<open>of\<close>.
\<close>
definition log_ind :: "env \<Rightarrow> mem \<Rightarrow> sys \<Rightarrow> sys" where
  "log_ind e payload s =
     (let of' = sint ((word_of_nat (kfifo_len (apba_log_fifo s)) :: u32)
                       + ucast (hdr_size payload) - word_of_nat APBA_LOG_SIZE);
          fifo1 = (if of' > 0
                   then snd (snd (kfifo_out (apba_log_fifo s)
                                    (nat (min of' (int (APBA_MSG_SIZE_MAX e))))))
                   else apba_log_fifo s);
          fifo2 = snd (kfifo_in fifo1 (\<lambda>i. payload (sizeof_apba_ctrl_msg_hdr + i))
                         (unat (hdr_size payload)))
      in s\<lparr>apba_log_fifo := fifo2\<rparr>)"

definition apba_handle_message :: "env \<Rightarrow> mem \<Rightarrow> nat \<Rightarrow> sys \<Rightarrow> sys" where
  "apba_handle_message e payload len' s =
     (if g_ctrl s = NULL then s
      else if len' < sizeof_apba_ctrl_msg_hdr then s
      else (case msg_type_of e (hdr_type payload) of
              APBA_CTRL_INT_REASON \<Rightarrow>
                if len' \<ge> sizeof_apba_ctrl_int_reason_resp
                then apba_action_on_int_reason e (le16_to_cpu payload sizeof_apba_ctrl_msg_hdr) s
                else s
            | APBA_CTRL_PM_WAKE_ACK \<Rightarrow> emit [Mods_uart_pm_handle_events APBA_CTRL_PM_WAKE_ACK] s
            | APBA_CTRL_PM_SLEEP_ACK \<Rightarrow> emit [Mods_uart_pm_handle_events APBA_CTRL_PM_SLEEP_ACK] s
            | APBA_CTRL_PM_SLEEP_IND \<Rightarrow> emit [Mods_uart_pm_handle_events APBA_CTRL_PM_SLEEP_IND] s
            | APBA_CTRL_LOG_IND \<Rightarrow> log_ind e payload s
            | APBA_CTRL_LOG_REQUEST \<Rightarrow> emit [Complete COMP] s
            | APBA_CTRL_BAUD_ACK \<Rightarrow>
                emit [Complete BAUD_COMP]
                  (if baud_ack_accepted payload \<noteq> 0
                   then emit [Mods_uart_update_baud (baud_ack_baud payload)] s
                   else s)
            | APBA_CTRL_MODE_REQUEST \<Rightarrow> emit [Complete MODE_COMP] s
            | _ \<Rightarrow> s))"

subsection \<open>Requests with a timed wait\<close>

text \<open>
  The three sysfs handlers that send a request and wait for its completion. The result
  is the \<open>ssize_t\<close> returned; \<open>apba_log_show\<close> also returns the bytes it copies out.
\<close>
definition apba_mode_store :: "env \<Rightarrow> string \<Rightarrow> nat \<Rightarrow> sys \<Rightarrow> int \<times> sys" where
  "apba_mode_store e buf count s =
     (if g_ctrl s = NULL \<or> mods_uart (ctrl_obj s) = None then (0, s)
      else (case kstrtoul e buf of
              None \<Rightarrow> (- EINVAL, s)
            | Some v \<Rightarrow>
                (let s1 = emit [Mods_uart_apba_send APBA_CTRL_MODE_REQUEST [word_of_nat v]] s
                 in if send_result e APBA_CTRL_MODE_REQUEST \<noteq> 0 then (int count, s1)
                    else (let s2 = emit [Wait_for_completion_timeout MODE_COMP APBA_MODE_REQ_TIMEOUT] s1
                          in if wait_result e MODE_COMP = 0 then (int count, s2)
                             else (int count,
                                   s2\<lparr>ctrl_obj := (ctrl_obj s2)\<lparr>mode := word_of_nat v\<rparr>\<rparr>)))))"

definition apba_baud_store :: "env \<Rightarrow> string \<Rightarrow> nat \<Rightarrow> sys \<Rightarrow> int \<times> sys" where
  "apba_baud_store e buf count s =
     (if g_ctrl s = NULL \<or> mods_uart (ctrl_obj s) = None then (- ENODEV, s)
      else (case kstrtoul e buf of
              None \<Rightarrow> (- EINVAL, s)
            | Some v \<Rightarrow>
                (let s1 = emit [Mods_uart_apba_send APBA_CTRL_BAUD_REQUEST
                                  (cpu_to_le32 (word_of_nat v))] s
                 in if send_result e APBA_CTRL_BAUD_REQUEST \<noteq> 0 then (- EIO, s1)
                    else (let s2 = emit [Mods_uart_lock_tx True,
                                         Wait_for_completion_timeout BAUD_COMP APBA_BAUD_REQ_TIMEOUT] s1
                          in if wait_result e BAUD_COMP = 0
                             then (- EAGAIN, emit [Mods_uart_lock_tx False] s2)
                             else (int count, emit [Mods_uart_lock_tx False] s2)))))"

definition apba_log_show :: "env \<Rightarrow> sys \<Rightarrow> int \<times> u8 list \<times> sys" where
  "apba_log_show e s =
     (if g_ctrl s = NULL then (0, [], s)
      else (let s1 = emit [Mods_uart_apba_send APBA_CTRL_LOG_REQUEST []] s
            in if send_result e APBA_CTRL_LOG_REQUEST \<noteq> 0 then (0, [], s1)
               else (let s2 = emit [Wait_for_completion_timeout COMP APBA_LOG_REQ_TIMEOUT] s1
                     in if wait_result e COMP = 0 then (0, [], s2)
                        else (case kfifo_out (apba_log_fifo s2) (PAGE_SIZE - 1) of
                                (count, out, fifo) \<Rightarrow>
                                  (int count, out, s2\<lparr>apba_log_fifo := fifo\<rparr>)))))"

subsection \<open>\<open>apba_enable\<close> and \<open>apba_disable\<close>\<close>

definition apba_enable :: "env \<Rightarrow> sys \<Rightarrow> (int \<times> sys) option" where
  "apba_enable e s =
     (if g_ctrl s = NULL then Some (- ENODEV, s)
      else (let s1 = emit [Clk_prepare_enable] s
            in if clk_prepare_enable e \<noteq> 0 then Some (clk_prepare_enable e, s1)
               else do {
                 s2 \<leftarrow> apba_on e True (s1\<lparr>ctrl_obj := (ctrl_obj s1)\<lparr>desired_on := 1\<rparr>\<rparr>);
                 Some (0, s2)
               }))"

definition apba_disable :: "env \<Rightarrow> sys \<Rightarrow> sys option" where
  "apba_disable e s =
     (if g_ctrl s = NULL \<or> desired_on (ctrl_obj s) = 0 then Some s
      else (let s1 = emit [Mods_slave_ctrl_power (master_intf (ctrl_obj s)) MB_CONTROL_SLAVE_POWER_OFF] s;
                s2 = s1\<lparr>ctrl_obj := (ctrl_obj s1)\<lparr>desired_on := 0\<rparr>\<rparr>;
                s3 = (if mods_uart (ctrl_obj s2) \<noteq> None then emit [Mod_attach 0] s2 else s2);
                s4 = emit [Clk_disable_unprepare] s3
            in apba_on e False s4))"

text \<open>What probe establishes of the controller object: the GPIO array has its
  \<open>APBA_NUM_GPIOS\<close> entries and the six sequences are loaded.\<close>
definition ctrl_ok :: "apba_ctrl \<Rightarrow> bool" where
  "ctrl_ok c \<longleftrightarrow>
     length (gpios c) = APBA_NUM_GPIOS \<and>
     seq_ok (enable_seq c) \<and> seq_ok (disable_seq c) \<and>
     seq_ok (wake_assert_seq c) \<and> seq_ok (wake_deassert_seq c) \<and>
     seq_ok (flash_start_seq c) \<and> seq_ok (flash_end_seq c)"


text \<open>The events of one triple of a sequence when the GPIO array is complete: the pin
  write, if the index is inside the array and the GPIO number is valid, then the delay,
  if it is not zero.\<close>
definition triple_events :: "env \<Rightarrow> apba_ctrl \<Rightarrow> u32 \<times> u32 \<times> u32 \<Rightarrow> event list" where
  "triple_events e c t = (case t of (index, value, delay) \<Rightarrow>
     (if unat index < APBA_NUM_GPIOS \<and> gpio_is_valid e (gpios c ! unat index)
      then [Gpio_set_value (gpios c ! unat index) (sint value)] else [])
     @ (if delay \<noteq> 0 then [Usleep_range_ms (unat delay)] else []))"

abbreviation seq_events :: "env \<Rightarrow> apba_ctrl \<Rightarrow> apba_seq \<Rightarrow> event list" where
  "seq_events e c q \<equiv> concat (map (triple_events e c) (seq_triples q))"

subsection \<open>Relations between states\<close>

text \<open>The calls that change the flash.\<close>
fun is_flash_change :: "event \<Rightarrow> bool" where
  "is_flash_change (Mtd_erase n a l) = True"
| "is_flash_change (Mtd_write n a l) = True"
| "is_flash_change ev = False"

text \<open>\<open>quiet s s'\<close>: the trace of \<open>s'\<close> continues that of \<open>s\<close> with no call that
  changes the flash.\<close>
definition quiet :: "sys \<Rightarrow> sys \<Rightarrow> bool" where
  "quiet s s' \<longleftrightarrow> (\<exists>evs. trace s' = trace s @ evs \<and> filter is_flash_change evs = [])"

text \<open>\<open>later s s'\<close>: the trace of \<open>s'\<close> continues that of \<open>s\<close>, and the power intent,
  the loaded configuration and the power state are those of \<open>s\<close>.\<close>
definition later :: "sys \<Rightarrow> sys \<Rightarrow> bool" where
  "later s s' \<longleftrightarrow>
     (\<exists>evs. trace s' = trace s @ evs) \<and>
     desired_on (ctrl_obj s') = desired_on (ctrl_obj s) \<and>
     ctrl_ok (ctrl_obj s') = ctrl_ok (ctrl_obj s) \<and>
     powered s' = powered s"

subsection \<open>A concrete configuration\<close>

text \<open>A controller with two GPIOs and short sequences, an environment in which every
  outside call succeeds, and a state after \<open>apba_enable\<close>; the theorems below are
  instantiated on them.\<close>
definition example_seq :: "u32 list \<Rightarrow> apba_seq" where
  "example_seq ws = \<lparr>val = ws @ replicate (APBA_MAX_SEQ - length ws) 0, len = length ws\<rparr>"

definition example_ctrl :: apba_ctrl where
  "example_ctrl =
     \<lparr>gpio_cnt = 2, gpios = [17, 18, 0, 0, 0, 0, 0, 0], int_index = 1,
      enable_seq = example_seq [0, 1, 5],
      disable_seq = example_seq [0, 0, 0],
      wake_assert_seq = example_seq [1, 1, 0],
      wake_deassert_seq = example_seq [1, 0, 0],
      flash_start_seq = example_seq [9, 1, 5, 0, 1, 0],
      flash_end_seq = example_seq [0, 0, 2],
      pinctrl_state_active = True, mods_uart = Some 1, desired_on = 1,
      master_intf = 1, mode = 0, flash_dev_populated = False\<rparr>"

definition example_sys :: sys where
  "example_sys =
     \<lparr>ctrl_obj = example_ctrl, g_ctrl = CTRL, apba_log_fifo = [],
      powered = True, flash_mode = False, trace = []\<rparr>"

definition example_mtd :: mtd_info where
  "example_mtd =
     \<lparr>mtd_type = 3, mtd_name = ''apba'', mtd_size = 8192,
      m_erase = (\<lambda>a l. 0), m_read = (\<lambda>f l. (0, l, (\<lambda>i. 0))), m_write = (\<lambda>t l d. 0)\<rparr>"

definition example_env :: env where
  "example_env =
     \<lparr>APBA_MSG_SIZE_MAX = 2048,
      msg_type_of = (\<lambda>w. if w = 1 then APBA_CTRL_INT_REASON
                          else if w = 5 then APBA_CTRL_LOG_IND
                          else if w = 9 then APBA_CTRL_BAUD_ACK
                          else APBA_CTRL_OTHER),
      gpio_is_valid = (\<lambda>g. 0 \<le> g),
      get_mtd_device = (\<lambda>n. if n = 2 then Some example_mtd else None),
      kmalloc_ok = True, transports_node = True, spi_transfer_node = True,
      device_create_ok = True, clk_prepare_enable = 0,
      kstrtoul = (\<lambda>b. if b = ''3'' then Some 3 else None),
      send_result = (\<lambda>t. 0), wait_result = (\<lambda>c. 1)\<rparr>"

text \<open>A \<open>BAUD_ACK\<close> for 115200 baud, accepted, in the wire format of
  \<open>struct apba_baud_ack\<close>.\<close>
definition example_baud_ack :: mem where
  "example_baud_ack = (\<lambda>i. if i = 0 then 9 else if i = 5 then 194 else if i = 6 then 1
                            else if i = 8 then 1 else 0)"

text \<open>The state of the example after \<open>apba_disable\<close>, with an empty trace.\<close>
definition example_off :: sys where
  "example_off = example_sys\<lparr>ctrl_obj := example_ctrl\<lparr>desired_on := 0\<rparr>, powered := False\<rparr>"

text \<open>An image of one page that equals what \<open>example_mtd\<close> reads.\<close>
definition example_fw :: firmware where
  "example_fw = \<lparr>fw_size = 4096, fw_data = (\<lambda>i. 0)\<rparr>"

text \<open>A \<open>LOG_IND\<close> with ten bytes of payload, and a state whose log FIFO is four bytes
  short of full.\<close>
definition example_log_ind :: mem where
  "example_log_ind = (\<lambda>i. if i = 0 then 5 else if i = 2 then 10 else if i < 4 then 0 else 65)"

definition example_full :: sys where
  "example_full = example_sys\<lparr>apba_log_fifo := replicate 16380 66\<rparr>"

text \<open>The environment of the example, except that every timed wait runs out.\<close>
definition example_timeout_env :: env where
  "example_timeout_env = example_env\<lparr>wait_result := (\<lambda>c. 0)\<rparr>"

section \<open>Properties\<close>

subsection \<open>The trace\<close>

lemma emit_simps [simp]:
  "ctrl_obj (emit evs s) = ctrl_obj s"
  "g_ctrl (emit evs s) = g_ctrl s"
  "apba_log_fifo (emit evs s) = apba_log_fifo s"
  "powered (emit evs s) = powered s"
  "flash_mode (emit evs s) = flash_mode s"
  "trace (emit evs s) = trace s @ evs"
  by (simp_all add: emit_def)

lemma emit_emit [simp]: "emit b (emit a s) = emit (a @ b) s"
  by (simp add: emit_def)

lemma emit_Nil [simp]: "emit [] s = s"
  by (simp add: emit_def)

lemma emit_neq: "evs \<noteq> evs' \<Longrightarrow> emit evs s \<noteq> emit evs' s"
proof
  assume d: "evs \<noteq> evs'" and "emit evs s = emit evs' s"
  then have "trace (emit evs s) = trace (emit evs' s)" by simp
  with d show False by simp
qed

subsection \<open>The sequencer\<close>

lemma seq_step_total:
  "length (gpios c) = APBA_NUM_GPIOS \<Longrightarrow>
   seq_step e c index value delay = Some (triple_events e c (index, value, delay))"
  by (simp add: seq_step_def triple_events_def arr_def Let_def)

lemma apba_seq_loop_from:
  assumes g: "length (gpios c) = APBA_NUM_GPIOS"
    and l: "len q \<le> length (val q)" and m: "len q mod 3 = 0"
  shows "k \<le> len q div 3 \<Longrightarrow>
         apba_seq_loop e c q (3 * k) =
           Some (concat (map (triple_events e c)
             (map (\<lambda>k. (val q ! (3 * k), val q ! (3 * k + 1), val q ! (3 * k + 2)))
                  [k..<len q div 3])))"
proof (induction "len q div 3 - k" arbitrary: k)
  case 0
  then have "k = len q div 3" by simp
  then have "\<not> 3 * k < len q" using m by presburger
  then show ?case using \<open>k = len q div 3\<close>
    by (subst apba_seq_loop.simps) simp
next
  case (Suc n)
  then have lt: "k < len q div 3" by simp
  then have in3: "3 * k + 2 < len q" using m by presburger
  have ih: "apba_seq_loop e c q (3 * Suc k) =
           Some (concat (map (triple_events e c)
             (map (\<lambda>k. (val q ! (3 * k), val q ! (3 * k + 1), val q ! (3 * k + 2)))
                  [Suc k..<len q div 3])))"
    using Suc.hyps(1)[of "Suc k"] Suc.hyps(2) lt by simp
  have e3: "3 * k + 3 = 3 * Suc k" by simp
  show ?case
    apply (subst apba_seq_loop.simps)
    using in3 l lt
    apply (simp add: arr_def seq_step_total[OF g] e3 ih upt_conv_Cons del: mult_Suc_right)
    done
qed

lemma apba_seq_events:
  assumes "length (gpios (ctrl_obj s)) = APBA_NUM_GPIOS" and "seq_ok q"
  shows "apba_seq e q s = Some (emit (concat (map (triple_events e (ctrl_obj s)) (seq_triples q))) s)"
  using apba_seq_loop_from[of "ctrl_obj s" q 0 e] assms
  by (simp add: apba_seq_def seq_triples_def seq_ok_def)

lemma example_seq_ok:
  "length ws \<le> APBA_MAX_SEQ \<Longrightarrow> length ws mod 3 = 0 \<Longrightarrow> seq_ok (example_seq ws)"
  by (simp add: seq_ok_def example_seq_def)

lemma example_triples:
  "seq_triples (example_seq [a, b, c, d, f, g]) = [(a, b, c), (d, f, g)]"
  "seq_triples (example_seq [a, b, c]) = [(a, b, c)]"
  by (simp_all add: seq_triples_def example_seq_def upt_conv_Cons)

text \<open>
  C6. For a loaded sequence (its length a multiple of three, inside the array) and the
  GPIO array of \<open>APBA_NUM_GPIOS\<close> entries, \<open>apba_seq\<close> returns, and its calls are those of
  the triples of the sequence, one triple after the other in the order of the sequence.
  A triple whose pin index is not less than \<open>APBA_NUM_GPIOS\<close> reads nothing from the GPIO
  array and writes no pin; only its delay is run, and the triples after it follow.
\<close>
theorem apba_seq_visits_in_order:
  assumes "length (gpios (ctrl_obj s)) = APBA_NUM_GPIOS" and "seq_ok q"
  shows "apba_seq e q s
           = Some (emit (concat (map (triple_events e (ctrl_obj s)) (seq_triples q))) s)
       \<and> (\<forall>index value delay. APBA_NUM_GPIOS \<le> unat index \<longrightarrow>
            triple_events e (ctrl_obj s) (index, value, delay)
              = (if delay \<noteq> 0 then [Usleep_range_ms (unat delay)] else []))"
  using apba_seq_events[OF assms] by (simp add: triple_events_def)

theorem apba_seq_visits_in_order_witness:
  "length (gpios (ctrl_obj example_sys)) = APBA_NUM_GPIOS
   \<and> seq_ok (example_seq [9, 1, 5, 0, 1, 0])
   \<and> apba_seq example_env (example_seq [9, 1, 5, 0, 1, 0]) example_sys
       = Some (emit [Usleep_range_ms 5, Gpio_set_value 17 1] example_sys)"
  using apba_seq_visits_in_order[of example_sys "example_seq [9, 1, 5, 0, 1, 0]" example_env]
  by (simp add: example_seq_ok example_triples triple_events_def example_sys_def example_ctrl_def
      example_env_def APBA_NUM_GPIOS_def APBA_MAX_SEQ_def)

subsection \<open>Power and flash mode\<close>

lemma triple_events_frame [simp]:
  "triple_events e (c\<lparr>mode := x\<rparr>) = triple_events e c"
  "triple_events e (c\<lparr>flash_dev_populated := y\<rparr>) = triple_events e c"
  "triple_events e (c\<lparr>desired_on := z\<rparr>) = triple_events e c"
  by (simp_all add: triple_events_def fun_eq_iff)

lemma ctrl_ok_frame [simp]:
  "ctrl_ok (c\<lparr>mode := x\<rparr>) = ctrl_ok c"
  "ctrl_ok (c\<lparr>flash_dev_populated := y\<rparr>) = ctrl_ok c"
  "ctrl_ok (c\<lparr>desired_on := z\<rparr>) = ctrl_ok c"
  by (simp_all add: ctrl_ok_def)

lemma apba_seq_SomeD: "apba_seq e q s = Some s' \<Longrightarrow> \<exists>evs. s' = emit evs s"
  by (auto simp: apba_seq_def)

lemma apba_on_True_eq:
  assumes "ctrl_ok (ctrl_obj s)"
  shows "apba_on e True s =
         Some ((emit ([Mods_ext_bus_vote True]
                      @ (if mods_uart (ctrl_obj s) \<noteq> None then [Mods_uart_open] else [])
                      @ seq_events e (ctrl_obj s) (enable_seq (ctrl_obj s))
                      @ (if mods_uart (ctrl_obj s) \<noteq> None then [Mods_uart_pm_on True] else [])) s)
               \<lparr>powered := True\<rparr>)"
  using assms by (simp add: apba_on_def ctrl_ok_def apba_seq_events Let_def)

lemma apba_on_False_eq:
  assumes "ctrl_ok (ctrl_obj s)"
  shows "apba_on e False s =
         Some ((emit ([Mods_ext_bus_vote False]
                      @ seq_events e (ctrl_obj s) (disable_seq (ctrl_obj s))
                      @ (if mods_uart (ctrl_obj s) \<noteq> None
                         then [Mods_uart_pm_on False, Mods_uart_close] else [])) s)
               \<lparr>ctrl_obj := (ctrl_obj s)\<lparr>mode := 0\<rparr>, powered := False\<rparr>)"
  using assms by (simp add: apba_on_def ctrl_ok_def apba_seq_events Let_def emit_def)

lemma apba_flash_on_True_eq:
  assumes "ctrl_ok (ctrl_obj s)"
  shows "apba_flash_on e True s =
         Some ((populate_transports_node e
                 (emit ((if pinctrl_state_active (ctrl_obj s) then [Pinctrl_select_active] else [])
                        @ seq_events e (ctrl_obj s) (flash_start_seq (ctrl_obj s))
                        @ [Muc_register_spi_flash]) s))
               \<lparr>flash_mode := True\<rparr>)"
  using assms by (simp add: apba_flash_on_def ctrl_ok_def apba_seq_events Let_def)

lemma apba_flash_on_False_eq:
  assumes "ctrl_ok (ctrl_obj s)"
  shows "apba_flash_on e False s =
         Some ((emit ((if flash_dev_populated (ctrl_obj s) then [Of_platform_depopulate] else [])
                      @ seq_events e (ctrl_obj s) (flash_end_seq (ctrl_obj s))
                      @ [Muc_deregister_spi_flash, Pinctrl_select_default]) s)
               \<lparr>ctrl_obj := (ctrl_obj s)\<lparr>flash_dev_populated := False\<rparr>, flash_mode := False\<rparr>)"
  using assms by (simp add: apba_flash_on_def ctrl_ok_def apba_seq_events Let_def emit_def)

lemma apba_on_frame:
  assumes "apba_on e b s = Some s'"
  shows "desired_on (ctrl_obj s') = desired_on (ctrl_obj s) \<and> g_ctrl s' = g_ctrl s"
  using assms
  by (auto simp: apba_on_def Let_def bind_eq_Some_conv dest!: apba_seq_SomeD split: if_splits)

lemma example_ctrl_ok: "ctrl_ok example_ctrl"
  by (simp add: ctrl_ok_def example_ctrl_def example_seq_ok APBA_NUM_GPIOS_def APBA_MAX_SEQ_def)

text \<open>
  C5. When \<open>desired_on\<close> is already 0, \<open>apba_disable\<close> returns the state as it was: the
  trace gets no call (no slave power command, no GPIO sequence, no clock call, no
  detach, no close of the transport) and no field of the controller changes. So a
  second \<open>apba_disable\<close> right after a first one changes nothing.
\<close>
theorem apba_disable_noop:
  "(desired_on (ctrl_obj s) = 0 \<longrightarrow> apba_disable e s = Some s)
   \<and> (\<forall>s'. apba_disable e s = Some s' \<longrightarrow> apba_disable e s' = Some s')"
proof (intro conjI impI allI)
  assume "desired_on (ctrl_obj s) = 0"
  then show "apba_disable e s = Some s" by (simp add: apba_disable_def)
next
  fix s' assume d: "apba_disable e s = Some s'"
  show "apba_disable e s' = Some s'"
  proof (cases "g_ctrl s = NULL \<or> desired_on (ctrl_obj s) = 0")
    case True
    with d have "s' = s" by (simp add: apba_disable_def)
    with d show ?thesis by simp
  next
    case False
    with d obtain s4 where on: "apba_on e False s4 = Some s'"
      and z: "desired_on (ctrl_obj s4) = 0"
      by (auto simp: apba_disable_def Let_def split: if_splits)
    from apba_on_frame[OF on] z have "desired_on (ctrl_obj s') = 0" by simp
    then show ?thesis by (simp add: apba_disable_def)
  qed
qed

theorem apba_disable_noop_witness:
  "desired_on (ctrl_obj example_off) = 0
   \<and> apba_disable example_env example_off = Some example_off
   \<and> apba_disable example_env example_sys
       = Some (example_off\<lparr>trace := [Mods_slave_ctrl_power 1 MB_CONTROL_SLAVE_POWER_OFF, Mod_attach 0,
                 Clk_disable_unprepare, Mods_ext_bus_vote False, Gpio_set_value 17 0,
                 Mods_uart_pm_on False, Mods_uart_close]\<rparr>)
   \<and> apba_disable example_env
        (example_off\<lparr>trace := [Mods_slave_ctrl_power 1 MB_CONTROL_SLAVE_POWER_OFF, Mod_attach 0,
                 Clk_disable_unprepare, Mods_ext_bus_vote False, Gpio_set_value 17 0,
                 Mods_uart_pm_on False, Mods_uart_close]\<rparr>)
       = Some (example_off\<lparr>trace := [Mods_slave_ctrl_power 1 MB_CONTROL_SLAVE_POWER_OFF, Mod_attach 0,
                 Clk_disable_unprepare, Mods_ext_bus_vote False, Gpio_set_value 17 0,
                 Mods_uart_pm_on False, Mods_uart_close]\<rparr>)"
proof -
  have run: "apba_disable example_env example_sys
       = Some (example_off\<lparr>trace := [Mods_slave_ctrl_power 1 MB_CONTROL_SLAVE_POWER_OFF, Mod_attach 0,
                 Clk_disable_unprepare, Mods_ext_bus_vote False, Gpio_set_value 17 0,
                 Mods_uart_pm_on False, Mods_uart_close]\<rparr>)"
    by (simp add: apba_disable_def Let_def apba_on_False_eq example_ctrl_ok example_sys_def
        example_off_def)
       (simp add: example_ctrl_def example_triples triple_events_def example_env_def emit_def
        APBA_NUM_GPIOS_def)
  show ?thesis
    using apba_disable_noop[of example_off example_env]
      apba_disable_noop[of example_sys example_env] run
    by (simp add: example_off_def)
qed

subsection \<open>The firmware pipeline\<close>

lemma later_refl [simp]: "later s s"
  by (simp add: later_def)

lemma later_trans: "later s s1 \<Longrightarrow> later s1 s2 \<Longrightarrow> later s s2"
  by (auto simp: later_def)

lemma later_emit [simp]: "later s (emit evs s)"
  by (simp add: later_def)

lemma later_emit_trans: "later s s1 \<Longrightarrow> later s (emit evs s1)"
  by (auto simp: later_def)

lemma later_populate: "later s (populate_transports_node e s)"
  by (simp add: populate_transports_node_def later_def Let_def)

lemma later_flash_mode [simp]: "later s (s1\<lparr>flash_mode := b\<rparr>) = later s s1"
  by (simp add: later_def)

lemma mtd_loop_later: "mtd_loop e p n s = (r, s') \<Longrightarrow> later s s'"
proof (induction e p n s rule: mtd_loop.induct)
  case (1 e p n s)
  show ?case
  proof (cases "n < 16")
    case False
    with "1.prems" show ?thesis by (subst (asm) mtd_loop.simps) simp
  next
    case lt: True
    let ?s1 = "emit [Get_mtd_device n] s"
    show ?thesis
    proof (cases "get_mtd_device e n")
      case None
      with lt "1.prems" have "mtd_loop e p (n + 1) ?s1 = (r, s')"
        by (subst (asm) mtd_loop.simps) (simp add: Let_def)
      from "1.IH"(1)[OF lt refl None this] show ?thesis
        by (auto simp: later_def)
    next
      case (Some m)
      let ?s2 = "emit [Put_mtd_device (mtd_name m)] ?s1"
      consider (absent) "mtd_type m = MTD_ABSENT"
        | (other) "mtd_type m \<noteq> MTD_ABSENT" "mtd_name m \<noteq> p"
        | (found) "mtd_type m \<noteq> MTD_ABSENT" "mtd_name m = p" by blast
      then show ?thesis
      proof cases
        case absent
        with lt Some "1.prems" have "mtd_loop e p (n + 1) ?s2 = (r, s')"
          by (subst (asm) mtd_loop.simps) (simp add: Let_def)
        from "1.IH"(2)[OF lt refl Some absent this] show ?thesis
          by (auto simp: later_def)
      next
        case other
        with lt Some "1.prems" have "mtd_loop e p (n + 1) ?s2 = (r, s')"
          by (subst (asm) mtd_loop.simps) (simp add: Let_def)
        from "1.IH"(3)[OF lt refl Some other(1) other(2) this] show ?thesis
          by (auto simp: later_def)
      next
        case found
        with lt Some "1.prems" have "s' = ?s1"
          by (subst (asm) mtd_loop.simps) (simp add: Let_def)
        then show ?thesis by simp
      qed
    qed
  qed
qed

lemma compare_later: "apba_compare_partition e m fw s = (r, s') \<Longrightarrow> later s s'"
  by (auto simp: apba_compare_partition_def Let_def split: if_splits prod.splits)

lemma erase_later: "apba_mtd_erase m a l s = (r, s') \<Longrightarrow> later s s'"
  by (auto simp: apba_mtd_erase_def Let_def)

lemma no_mtd_post:
  assumes ok: "ctrl_ok (ctrl_obj s1)" and off: "\<not> powered s1"
  shows "\<exists>s2 s'. no_mtd e err s1 = Some (err, s')
           \<and> apba_flash_on e False s1 = Some s2
           \<and> (if desired_on (ctrl_obj s1) \<noteq> 0 then apba_on e True s2 else Some s2) = Some s'
           \<and> powered s' = (desired_on (ctrl_obj s1) \<noteq> 0) \<and> \<not> flash_mode s'
           \<and> desired_on (ctrl_obj s') = desired_on (ctrl_obj s1)"
  using assms
  by (simp add: no_mtd_def apba_flash_on_False_eq apba_on_True_eq)

lemma brackets_open:
  assumes ok: "ctrl_ok (ctrl_obj s)"
  shows "\<exists>s2. (apba_on e False s \<bind> apba_flash_on e True) = Some s2
          \<and> ctrl_ok (ctrl_obj s2) \<and> \<not> powered s2
          \<and> desired_on (ctrl_obj s2) = desired_on (ctrl_obj s)
          \<and> (\<exists>pre. trace s2 = trace s @ pre)"
  using assms
  by (simp add: apba_on_False_eq apba_flash_on_True_eq populate_transports_node_def Let_def)


lemma inside_later:
  assumes "ctrl_ok (ctrl_obj s2) \<and> \<not> powered s2
          \<and> desired_on (ctrl_obj s2) = desired_on (ctrl_obj s)
          \<and> (\<exists>pre. trace s2 = trace s @ pre)" and "later s2 s3"
  shows "ctrl_ok (ctrl_obj s3) \<and> \<not> powered s3
          \<and> desired_on (ctrl_obj s3) = desired_on (ctrl_obj s)
          \<and> (\<exists>pre. trace s3 = trace s @ pre)"
  using assms by (auto simp: later_def)

lemma flash_reaches_no_mtd:
  assumes ok: "ctrl_ok (ctrl_obj s)"
  shows "\<exists>err s1. apba_flash_partition e CTRL p (Some fw) s = no_mtd e err s1
          \<and> ctrl_ok (ctrl_obj s1) \<and> \<not> powered s1
          \<and> desired_on (ctrl_obj s1) = desired_on (ctrl_obj s)
          \<and> (\<exists>pre. trace s1 = trace s @ pre)"
proof -
  from brackets_open[OF ok, of e] obtain s1 s2 where
    on: "apba_on e False s = Some s1" and fl: "apba_flash_on e True s1 = Some s2"
    and in2: "ctrl_ok (ctrl_obj s2) \<and> \<not> powered s2
          \<and> desired_on (ctrl_obj s2) = desired_on (ctrl_obj s)
          \<and> (\<exists>pre. trace s2 = trace s @ pre)"
    by (auto simp: bind_eq_Some_conv)
  obtain r s3 where init: "apba_init_mtd_module e p s2 = (r, s3)" by force
  then have "later s2 s3" by (simp add: apba_init_mtd_module_def mtd_loop_later)
  note in3 = inside_later[OF in2 this]
  show ?thesis
  proof (cases r)
    case None
    with on fl init have "apba_flash_partition e CTRL p (Some fw) s = no_mtd e (- ENODEV) s3"
      by (simp add: apba_flash_partition_def)
    with in3 show ?thesis by blast
  next
    case (Some m)
    obtain c s4 where cmp: "apba_compare_partition e m fw s3 = (c, s4)" by force
    note in4 = inside_later[OF in3 compare_later[OF cmp]]
    obtain err s5 where er: "apba_mtd_erase m 0 (mtd_size m) s4 = (err, s5)" by force
    note in5 = inside_later[OF in4 erase_later[OF er]]
    have p4: "later s4 (emit [Put_mtd_device (mtd_name m)] s4)" by simp
    have p5: "later s5 (emit [Put_mtd_device (mtd_name m)] s5)" by simp
    have p6: "later s5 (emit [Put_mtd_device (mtd_name m)]
                 (emit [Mtd_write (mtd_name m) 0 (fw_size fw)] s5))"
      by (simp add: later_def)
    consider (same) "c = 0" | (efail) "c \<noteq> 0" "err < 0" | (written) "c \<noteq> 0" "\<not> err < 0"
      by blast
    then show ?thesis
    proof cases
      case same
      with on fl init Some cmp
      have "apba_flash_partition e CTRL p (Some fw) s
              = no_mtd e 0 (emit [Put_mtd_device (mtd_name m)] s4)"
        by (simp add: apba_flash_partition_def cleanup_def)
      with inside_later[OF in4 p4] show ?thesis by blast
    next
      case efail
      with on fl init Some cmp er
      have "apba_flash_partition e CTRL p (Some fw) s
              = no_mtd e err (emit [Put_mtd_device (mtd_name m)] s5)"
        by (simp add: apba_flash_partition_def cleanup_def)
      with inside_later[OF in5 p5] show ?thesis by blast
    next
      case written
      with on fl init Some cmp er
      have "apba_flash_partition e CTRL p (Some fw) s
              = no_mtd e (m_write m 0 (fw_size fw) (fw_data fw))
                  (emit [Put_mtd_device (mtd_name m)]
                     (emit [Mtd_write (mtd_name m) 0 (fw_size fw)] s5))"
        by (simp add: apba_flash_partition_def cleanup_def)
      with inside_later[OF in5 p6] show ?thesis by blast
    qed
  qed
qed

lemma erase_reaches_no_mtd:
  assumes ok: "ctrl_ok (ctrl_obj s)"
  shows "\<exists>err s1. apba_erase_partition e CTRL p s = no_mtd e err s1
          \<and> ctrl_ok (ctrl_obj s1) \<and> \<not> powered s1
          \<and> desired_on (ctrl_obj s1) = desired_on (ctrl_obj s)
          \<and> (\<exists>pre. trace s1 = trace s @ pre)"
proof -
  from brackets_open[OF ok, of e] obtain s1 s2 where
    on: "apba_on e False s = Some s1" and fl: "apba_flash_on e True s1 = Some s2"
    and in2: "ctrl_ok (ctrl_obj s2) \<and> \<not> powered s2
          \<and> desired_on (ctrl_obj s2) = desired_on (ctrl_obj s)
          \<and> (\<exists>pre. trace s2 = trace s @ pre)"
    by (auto simp: bind_eq_Some_conv)
  obtain r s3 where init: "apba_init_mtd_module e p s2 = (r, s3)" by force
  then have "later s2 s3" by (simp add: apba_init_mtd_module_def mtd_loop_later)
  note in3 = inside_later[OF in2 this]
  show ?thesis
  proof (cases r)
    case None
    with on fl init have "apba_erase_partition e CTRL p s = no_mtd e (- ENODEV) s3"
      by (simp add: apba_erase_partition_def)
    with in3 show ?thesis by blast
  next
    case (Some m)
    obtain err s4 where er: "apba_mtd_erase m 0 (mtd_size m) s3 = (err, s4)" by force
    note in4 = inside_later[OF in3 erase_later[OF er]]
    have p4: "later s4 (emit [Put_mtd_device (mtd_name m)] s4)" by simp
    from on fl init Some er
    have "apba_erase_partition e CTRL p s
            = no_mtd e err (emit [Put_mtd_device (mtd_name m)] s4)"
      by (simp add: apba_erase_partition_def cleanup_def)
    with inside_later[OF in4 p4] show ?thesis by blast
  qed
qed

lemma bracket_close:
  assumes "\<exists>err s1. r = no_mtd e err s1
          \<and> ctrl_ok (ctrl_obj s1) \<and> \<not> powered s1
          \<and> desired_on (ctrl_obj s1) = desired_on (ctrl_obj s)
          \<and> (\<exists>pre. trace s1 = trace s @ pre)"
  shows "\<exists>err s1 s2 s'. r = Some (err, s')
           \<and> (\<exists>pre. trace s1 = trace s @ pre)
           \<and> apba_flash_on e False s1 = Some s2
           \<and> (if desired_on (ctrl_obj s) \<noteq> 0 then apba_on e True s2 else Some s2) = Some s'
           \<and> powered s' = (desired_on (ctrl_obj s) \<noteq> 0) \<and> \<not> flash_mode s'
           \<and> desired_on (ctrl_obj s') = desired_on (ctrl_obj s)"
proof -
  from assms obtain err s1 where r: "r = no_mtd e err s1"
    and ok: "ctrl_ok (ctrl_obj s1)" and off: "\<not> powered s1"
    and d: "desired_on (ctrl_obj s1) = desired_on (ctrl_obj s)"
    and tr: "\<exists>pre. trace s1 = trace s @ pre" by blast
  from no_mtd_post[OF ok off, of e err] obtain s2 s' where
    "no_mtd e err s1 = Some (err, s')" "apba_flash_on e False s1 = Some s2"
    "(if desired_on (ctrl_obj s1) \<noteq> 0 then apba_on e True s2 else Some s2) = Some s'"
    "powered s' = (desired_on (ctrl_obj s1) \<noteq> 0)" "\<not> flash_mode s'"
    "desired_on (ctrl_obj s') = desired_on (ctrl_obj s1)" by blast
  with r d tr show ?thesis by metis
qed

text \<open>
  C1. \<open>apba_flash_partition\<close> and \<open>apba_erase_partition\<close>, called with the controller
  (and, for flashing, an image; a \<open>NULL\<close> argument is refused with \<open>-EINVAL\<close> before
  anything is done), return on every outcome of the partition lookup, the comparison,
  the erase and the write, and the state they return is reached from a state \<open>s1\<close> of
  the operation by \<open>apba_flash_on\<close> with \<open>false\<close> and then \<open>apba_on\<close> with \<open>true\<close>
  exactly when \<open>desired_on\<close> is set. So afterwards the flash mode is left, the
  controller is powered exactly when \<open>desired_on\<close> was set before the operation, and
  \<open>desired_on\<close> is what it was.
\<close>
theorem flash_mode_bracketing:
  assumes "ctrl_ok (ctrl_obj s)"
  shows "(\<exists>err s1 s2 s'. apba_flash_partition e CTRL p (Some fw) s = Some (err, s')
           \<and> (\<exists>pre. trace s1 = trace s @ pre)
           \<and> apba_flash_on e False s1 = Some s2
           \<and> (if desired_on (ctrl_obj s) \<noteq> 0 then apba_on e True s2 else Some s2) = Some s'
           \<and> powered s' = (desired_on (ctrl_obj s) \<noteq> 0) \<and> \<not> flash_mode s'
           \<and> desired_on (ctrl_obj s') = desired_on (ctrl_obj s))
       \<and> (\<exists>err s1 s2 s'. apba_erase_partition e CTRL p s = Some (err, s')
           \<and> (\<exists>pre. trace s1 = trace s @ pre)
           \<and> apba_flash_on e False s1 = Some s2
           \<and> (if desired_on (ctrl_obj s) \<noteq> 0 then apba_on e True s2 else Some s2) = Some s'
           \<and> powered s' = (desired_on (ctrl_obj s) \<noteq> 0) \<and> \<not> flash_mode s'
           \<and> desired_on (ctrl_obj s') = desired_on (ctrl_obj s))"
  using bracket_close[OF flash_reaches_no_mtd[OF assms]]
    bracket_close[OF erase_reaches_no_mtd[OF assms]]
  by blast


theorem flash_mode_bracketing_witness:
  "ctrl_ok (ctrl_obj example_sys)
   \<and> (\<exists>err s'. apba_flash_partition example_env CTRL ''apba'' (Some example_fw) example_sys
                  = Some (err, s') \<and> powered s' \<and> \<not> flash_mode s')
   \<and> (\<exists>err s'. apba_erase_partition example_env CTRL ''apba'' example_sys
                  = Some (err, s') \<and> powered s' \<and> \<not> flash_mode s')
   \<and> (\<exists>err s'. apba_erase_partition example_env CTRL ''apba'' example_off
                  = Some (err, s') \<and> \<not> powered s' \<and> \<not> flash_mode s')"
proof -
  have a: "ctrl_ok (ctrl_obj example_sys)" by (simp add: example_sys_def example_ctrl_ok)
  have b: "ctrl_ok (ctrl_obj example_off)" by (simp add: example_off_def example_ctrl_ok)
  have d: "desired_on (ctrl_obj example_sys) = 1" "desired_on (ctrl_obj example_off) = 0"
    by (simp_all add: example_sys_def example_off_def example_ctrl_def)
  from flash_mode_bracketing[OF a, of example_env "''apba''" example_fw]
    flash_mode_bracketing[OF b, of example_env "''apba''" example_fw] a d
  show ?thesis by (simp del: ex_simps) blast
qed

lemma quiet_refl [simp]: "quiet s s"
  by (simp add: quiet_def)

lemma quiet_trans: "quiet s s1 \<Longrightarrow> quiet s1 s2 \<Longrightarrow> quiet s s2"
  by (auto simp: quiet_def)

lemma quiet_emit: "filter is_flash_change evs = [] \<Longrightarrow> quiet s (emit evs s)"
  by (simp add: quiet_def)

lemma quiet_new_events:
  "quiet s s' \<Longrightarrow> filter is_flash_change (drop (length (trace s)) (trace s')) = []"
  by (auto simp: quiet_def)

lemma triple_events_quiet: "filter is_flash_change (triple_events e c t) = []"
  by (cases t) (simp add: triple_events_def)

lemma seq_events_quiet: "filter is_flash_change (seq_events e c q) = []"
  by (simp add: filter_concat triple_events_quiet)

lemma apba_on_quiet:
  assumes "ctrl_ok (ctrl_obj s)"
  shows "\<exists>s'. apba_on e b s = Some s' \<and> quiet s s' \<and> ctrl_ok (ctrl_obj s')
           \<and> desired_on (ctrl_obj s') = desired_on (ctrl_obj s)"
  using assms
  by (cases b) (simp_all add: apba_on_True_eq apba_on_False_eq quiet_def seq_events_quiet)

lemma apba_flash_on_quiet:
  assumes "ctrl_ok (ctrl_obj s)"
  shows "\<exists>s'. apba_flash_on e b s = Some s' \<and> quiet s s' \<and> ctrl_ok (ctrl_obj s')
           \<and> desired_on (ctrl_obj s') = desired_on (ctrl_obj s)"
  using assms
  by (cases b)
     (simp_all add: apba_flash_on_True_eq apba_flash_on_False_eq quiet_def seq_events_quiet
        populate_transports_node_def Let_def)

lemma mtd_loop_result:
  "\<exists>r evs. filter is_flash_change evs = [] \<and> (\<forall>s. mtd_loop e p n s = (r, emit evs s))"
proof (induction "16 - n" arbitrary: n)
  case 0
  then have "\<forall>s. mtd_loop e p n s = (None, emit [] s)"
    by (subst mtd_loop.simps) simp
  then show ?case by (metis filter.simps(1))
next
  case (Suc k)
  then have lt: "n < 16" by simp
  have "k = 16 - (n + 1)" using Suc.hyps(2) by simp
  from Suc.hyps(1)[OF this] obtain r' evs' where
    q: "filter is_flash_change evs' = []" and
    ih: "\<forall>s. mtd_loop e p (n + 1) s = (r', emit evs' s)" by auto
  show ?case
  proof (cases "get_mtd_device e n")
    case None
    with lt ih have "\<forall>s. mtd_loop e p n s = (r', emit ([Get_mtd_device n] @ evs') s)"
      by (subst mtd_loop.simps) (simp add: Let_def)
    moreover have "filter is_flash_change ([Get_mtd_device n] @ evs') = []" using q by simp
    ultimately show ?thesis by blast
  next
    case (Some m)
    show ?thesis
    proof (cases "mtd_type m \<noteq> MTD_ABSENT \<and> mtd_name m = p")
      case True
      with lt Some have "\<forall>s. mtd_loop e p n s = (Some m, emit [Get_mtd_device n] s)"
        by (subst mtd_loop.simps) (simp add: Let_def)
      moreover have "filter is_flash_change [Get_mtd_device n] = []" by simp
      ultimately show ?thesis by blast
    next
      case False
      with lt Some ih
      have "\<forall>s. mtd_loop e p n s
              = (r', emit ([Get_mtd_device n, Put_mtd_device (mtd_name m)] @ evs') s)"
        by (subst mtd_loop.simps) (auto simp: Let_def)
      moreover have "filter is_flash_change
                       ([Get_mtd_device n, Put_mtd_device (mtd_name m)] @ evs') = []"
        using q by simp
      ultimately show ?thesis by blast
    qed
  qed
qed

lemma memcmp_from_zero: "memcmp_from a b i n = 0 \<longleftrightarrow> (\<forall>j<n. a (i + j) = b (i + j))"
proof (induction n arbitrary: i)
  case 0
  show ?case by simp
next
  case (Suc n)
  have "(\<forall>j<Suc n. a (i + j) = b (i + j))
          \<longleftrightarrow> a i = b i \<and> (\<forall>j<n. a (Suc i + j) = b (Suc i + j))"
    by (auto simp: less_Suc_eq_0_disj)
  moreover have "uint (a i) - uint (b i) = 0 \<longleftrightarrow> a i = b i"
    by (simp add: word_uint_eq_iff)
  ultimately show ?case using Suc by simp
qed

lemma memcmp_zero: "memcmp a b n = 0 \<longleftrightarrow> (\<forall>j<n. a j = b j)"
  by (simp add: memcmp_def memcmp_from_zero)

lemma example_found:
  "fst (apba_init_mtd_module example_env ''apba'' s) = Some example_mtd"
  by (simp add: apba_init_mtd_module_def mtd_loop.simps example_env_def example_mtd_def
      MTD_ABSENT_def Let_def)

text \<open>
  C2. When the partition is found, the page buffer is allocated, the read of the first
  \<open>PAGE_SIZE\<close> bytes returns no error and a full page, and these bytes equal the first
  \<open>PAGE_SIZE\<close> bytes at the image's data, \<open>apba_flash_partition\<close> returns 0 and none of
  its calls is an erase or a write of the flash.
\<close>
theorem unchanged_firmware_skips_flash:
  assumes ok: "ctrl_ok (ctrl_obj s)"
    and found: "fst (apba_init_mtd_module e p s) = Some m"
    and alloc: "kmalloc_ok e"
    and rd: "m_read m 0 PAGE_SIZE = (err, retlen, ffff)" "0 \<le> err" "PAGE_SIZE \<le> retlen"
    and same: "\<forall>i<PAGE_SIZE. ffff i = fw_data fw i"
  shows "\<exists>s'. apba_flash_partition e CTRL p (Some fw) s = Some (0, s')
           \<and> filter is_flash_change (drop (length (trace s)) (trace s')) = []"
proof -
  from apba_on_quiet[OF ok, of e False] obtain s1 where
    on: "apba_on e False s = Some s1" and q1: "quiet s s1" and ok1: "ctrl_ok (ctrl_obj s1)"
    and d1: "desired_on (ctrl_obj s1) = desired_on (ctrl_obj s)" by blast
  from apba_flash_on_quiet[OF ok1, of e True] obtain s2 where
    fl: "apba_flash_on e True s1 = Some s2" and q2: "quiet s1 s2" and ok2: "ctrl_ok (ctrl_obj s2)"
    by blast
  from mtd_loop_result[of e p 0] obtain r evs where
    qe: "filter is_flash_change evs = []" and
    lp: "\<forall>s. mtd_loop e p 0 s = (r, emit evs s)" by blast
  from found lp have r: "r = Some m" by (simp add: apba_init_mtd_module_def)
  define s3 where "s3 = emit evs s2"
  have init: "apba_init_mtd_module e p s2 = (Some m, s3)"
    using lp r by (simp add: apba_init_mtd_module_def s3_def)
  have q3: "quiet s2 s3" unfolding s3_def by (rule quiet_emit[OF qe])
  define s4 where "s4 = emit [Mtd_read (mtd_name m) 0 PAGE_SIZE, Put_mtd_device (mtd_name m)] s3"
  have cmp: "apba_compare_partition e m fw s3 = (0, emit [Mtd_read (mtd_name m) 0 PAGE_SIZE] s3)"
    using alloc rd same by (simp add: apba_compare_partition_def memcmp_zero)
  have q4: "quiet s3 s4" unfolding s4_def by (rule quiet_emit) simp
  have ok4: "ctrl_ok (ctrl_obj s4)" using ok2 by (simp add: s4_def s3_def)
  from apba_flash_on_quiet[OF ok4, of e False] obtain s5 where
    fo: "apba_flash_on e False s4 = Some s5" and q5: "quiet s4 s5" and ok5: "ctrl_ok (ctrl_obj s5)"
    by blast
  from apba_on_quiet[OF ok5, of e True] obtain s6 where
    on6: "apba_on e True s5 = Some s6" and q6: "quiet s5 s6" by blast
  define s' where "s' = (if desired_on (ctrl_obj s5) \<noteq> 0 then s6 else s5)"
  have res: "apba_flash_partition e CTRL p (Some fw) s = Some (0, s')"
    using on fl init cmp fo on6
    by (simp add: apba_flash_partition_def cleanup_def no_mtd_def s4_def s'_def)
  have "quiet s s5" using q1 q2 q3 q4 q5 by (blast intro: quiet_trans)
  moreover from this q6 have "quiet s s6" by (rule quiet_trans)
  ultimately have "quiet s s'" by (simp add: s'_def)
  with res show ?thesis by (blast dest: quiet_new_events)
qed


theorem unchanged_firmware_skips_flash_witness:
  "ctrl_ok (ctrl_obj example_sys)
   \<and> fst (apba_init_mtd_module example_env ''apba'' example_sys) = Some example_mtd
   \<and> kmalloc_ok example_env
   \<and> m_read example_mtd 0 PAGE_SIZE = (0, PAGE_SIZE, (\<lambda>i. 0))
   \<and> (0::int) \<le> 0 \<and> PAGE_SIZE \<le> PAGE_SIZE
   \<and> fw_data example_fw = (\<lambda>i. 0)
   \<and> (\<exists>s'. apba_flash_partition example_env CTRL ''apba'' (Some example_fw) example_sys
               = Some (0, s')
           \<and> filter is_flash_change (drop (length (trace example_sys)) (trace s')) = [])"
proof -
  have a: "ctrl_ok (ctrl_obj example_sys)" by (simp add: example_sys_def example_ctrl_ok)
  have b: "kmalloc_ok example_env" by (simp add: example_env_def)
  have c: "m_read example_mtd 0 PAGE_SIZE = (0, PAGE_SIZE, (\<lambda>i. 0))"
    by (simp add: example_mtd_def)
  have d: "\<forall>i<PAGE_SIZE. (\<lambda>i. 0) i = fw_data example_fw i" by (simp add: example_fw_def)
  have f: "fw_data example_fw = (\<lambda>i. 0)" by (simp add: example_fw_def)
  from unchanged_firmware_skips_flash[OF a example_found b c _ _ d] a b c f example_found
  show ?thesis by simp
qed


lemma compare_result:
  assumes "kmalloc_ok e" and "m_read m 0 PAGE_SIZE = (err, retlen, ffff)"
    and "0 \<le> err" and "PAGE_SIZE \<le> retlen"
  shows "apba_compare_partition e m fw s
           = (memcmp ffff (fw_data fw) PAGE_SIZE, emit [Mtd_read (mtd_name m) 0 PAGE_SIZE] s)"
  using assms by (simp add: apba_compare_partition_def)

text \<open>
  C10. The comparison is always over \<open>PAGE_SIZE\<close> bytes at the image's data pointer: when
  the page is read in full, the result is 0 exactly when all \<open>PAGE_SIZE\<close> bytes agree,
  and \<open>fw_size\<close> plays no part in it. So for every image size below \<open>PAGE_SIZE\<close> there
  are two inputs with the same size and the same image bytes, which differ only in the
  memory after the image, of which one is found equal to the partition and the other is
  not: the comparison reads past the end of the image, and the skip depends on what it
  finds there.
\<close>
theorem compare_reads_whole_page:
  assumes "kmalloc_ok e" and "m_read m 0 PAGE_SIZE = (err, retlen, ffff)"
    and "0 \<le> err" and "PAGE_SIZE \<le> retlen"
  shows "(fst (apba_compare_partition e m fw s) = 0 \<longleftrightarrow> (\<forall>i<PAGE_SIZE. ffff i = fw_data fw i))
       \<and> (\<forall>n. apba_compare_partition e m (fw\<lparr>fw_size := n\<rparr>) s = apba_compare_partition e m fw s)
       \<and> (\<forall>n<PAGE_SIZE. \<exists>fw1 fw2.
             fw_size fw1 = n \<and> fw_size fw2 = n \<and> (\<forall>i<n. fw_data fw1 i = fw_data fw2 i)
             \<and> fst (apba_compare_partition e m fw1 s) = 0
             \<and> fst (apba_compare_partition e m fw2 s) \<noteq> 0)"
proof (intro conjI allI impI)
  show "fst (apba_compare_partition e m fw s) = 0 \<longleftrightarrow> (\<forall>i<PAGE_SIZE. ffff i = fw_data fw i)"
    by (simp add: compare_result[OF assms] memcmp_zero)
next
  fix n show "apba_compare_partition e m (fw\<lparr>fw_size := n\<rparr>) s = apba_compare_partition e m fw s"
    by (simp add: apba_compare_partition_def Let_def split: prod.splits)
next
  fix n assume n: "n < PAGE_SIZE"
  define fw1 where "fw1 = \<lparr>fw_size = n, fw_data = ffff\<rparr>"
  define fw2 where "fw2 = \<lparr>fw_size = n, fw_data = ffff(n := ffff n + 1)\<rparr>"
  have "fst (apba_compare_partition e m fw1 s) = 0"
    by (simp add: compare_result[OF assms] memcmp_zero fw1_def)
  moreover have "fst (apba_compare_partition e m fw2 s) \<noteq> 0"
    using n by (auto simp: compare_result[OF assms] memcmp_zero fw2_def)
  moreover have "\<forall>i<n. fw_data fw1 i = fw_data fw2 i" by (simp add: fw1_def fw2_def)
  moreover have "fw_size fw1 = n" "fw_size fw2 = n" by (simp_all add: fw1_def fw2_def)
  ultimately show "\<exists>fw1 fw2.
             fw_size fw1 = n \<and> fw_size fw2 = n \<and> (\<forall>i<n. fw_data fw1 i = fw_data fw2 i)
             \<and> fst (apba_compare_partition e m fw1 s) = 0
             \<and> fst (apba_compare_partition e m fw2 s) \<noteq> 0" by blast
qed

theorem compare_reads_whole_page_witness:
  "kmalloc_ok example_env
   \<and> m_read example_mtd 0 PAGE_SIZE = (0, PAGE_SIZE, (\<lambda>i. 0))
   \<and> (0::int) \<le> 0 \<and> PAGE_SIZE \<le> PAGE_SIZE
   \<and> fst (apba_compare_partition example_env example_mtd
             \<lparr>fw_size = 1, fw_data = (\<lambda>i. 0)\<rparr> example_sys) = 0
   \<and> fst (apba_compare_partition example_env example_mtd
             \<lparr>fw_size = 1, fw_data = (\<lambda>i. if i = 1 then 1 else 0)\<rparr> example_sys) \<noteq> 0"
proof -
  have b: "kmalloc_ok example_env" by (simp add: example_env_def)
  have c: "m_read example_mtd 0 PAGE_SIZE = (0, PAGE_SIZE, (\<lambda>i. 0))"
    by (simp add: example_mtd_def)
  have d: "\<not> (\<forall>i<PAGE_SIZE. (0::u8) = (if i = 1 then 1 else 0))"
    by (auto simp: PAGE_SIZE_def intro!: exI[of _ 1])
  from compare_reads_whole_page[OF b c, of "\<lparr>fw_size = 1, fw_data = (\<lambda>i. 0)\<rparr>" example_sys]
    compare_reads_whole_page[OF b c,
      of "\<lparr>fw_size = 1, fw_data = (\<lambda>i. if i = 1 then 1 else 0)\<rparr>" example_sys]
    b c d
  show ?thesis by simp
qed






subsection \<open>Inbound messages\<close>

text \<open>
  C7. A buffer shorter than the 4-byte header, and a message whose type is none of those
  the handler has a case for, leave the whole state as it was: the log FIFO keeps its
  bytes, and the trace gets no call, so no completion is signalled and no power or attach
  action is started.
\<close>
theorem unknown_or_short_discarded:
  assumes "len' < sizeof_apba_ctrl_msg_hdr
           \<or> msg_type_of e (hdr_type payload) \<in> {APBA_CTRL_OTHER, APBA_CTRL_BAUD_REQUEST}"
  shows "apba_handle_message e payload len' s = s"
  using assms by (auto simp: apba_handle_message_def)

theorem unknown_or_short_discarded_witness:
  "(2 < sizeof_apba_ctrl_msg_hdr
    \<or> msg_type_of example_env (hdr_type (\<lambda>i. 0)) \<in> {APBA_CTRL_OTHER, APBA_CTRL_BAUD_REQUEST})
   \<and> apba_handle_message example_env (\<lambda>i. 0) 2 example_sys = example_sys
   \<and> msg_type_of example_env (hdr_type (\<lambda>i. 7)) = APBA_CTRL_OTHER
   \<and> apba_handle_message example_env (\<lambda>i. 7) 12 example_sys = example_sys"
  using unknown_or_short_discarded[of 2 example_env "\<lambda>i. 0" example_sys]
    unknown_or_short_discarded[of 12 example_env "\<lambda>i. 7" example_sys]
  by (simp add: sizeof_apba_ctrl_msg_hdr_def example_env_def hdr_type_def le16_to_cpu_def)

text \<open>
  C8. With \<open>g_ctrl\<close> set and a master interface registered (not zero), the reason
  \<open>APBA_INT_APBE_RESET\<close> gives exactly three calls in this order: slave power off, a
  sleep of 250 ms, slave power on. A reason that is none of ON, RESET, CONNECTED and
  DISCONNECTED leaves the state as it was: no power call and no attach work.
\<close>
theorem apbe_reset_actions:
  assumes "g_ctrl s = CTRL" and "master_intf (ctrl_obj s) \<noteq> 0"
  shows "apba_action_on_int_reason e APBA_INT_APBE_RESET s
           = emit [Mods_slave_ctrl_power (master_intf (ctrl_obj s)) MB_CONTROL_SLAVE_POWER_OFF,
                   Msleep 250,
                   Mods_slave_ctrl_power (master_intf (ctrl_obj s)) MB_CONTROL_SLAVE_POWER_ON] s
       \<and> (\<forall>reason. reason \<notin> {APBA_INT_APBE_ON, APBA_INT_APBE_RESET, APBA_INT_APBE_CONNECTED,
                               APBA_INT_APBE_DISCONNECTED}
             \<longrightarrow> apba_action_on_int_reason e reason s = s)"
  using assms
  by (simp add: apba_action_on_int_reason_def APBE_RESET_DELAY_def APBA_INT_APBE_ON_def
      APBA_INT_APBE_RESET_def)

theorem apbe_reset_actions_witness:
  "g_ctrl example_sys = CTRL \<and> master_intf (ctrl_obj example_sys) \<noteq> 0
   \<and> trace (apba_action_on_int_reason example_env 2 example_sys)
       = [Mods_slave_ctrl_power 1 MB_CONTROL_SLAVE_POWER_OFF, Msleep 250,
          Mods_slave_ctrl_power 1 MB_CONTROL_SLAVE_POWER_ON]
   \<and> apba_action_on_int_reason example_env 9 example_sys = example_sys"
  using apbe_reset_actions[of example_sys example_env]
  by (simp add: example_sys_def example_ctrl_def APBA_INT_APBE_ON_def
      APBA_INT_APBE_RESET_def APBA_INT_APBE_CONNECTED_def APBA_INT_APBE_DISCONNECTED_def)

lemma hdr_type_cong: "p' 0 = p 0 \<Longrightarrow> p' 1 = p 1 \<Longrightarrow> hdr_type p' = hdr_type p"
  by (simp add: hdr_type_def le16_to_cpu_def)

lemma baud_ack_branch:
  assumes "g_ctrl s = CTRL" and "msg_type_of e (hdr_type payload) = APBA_CTRL_BAUD_ACK"
    and "sizeof_apba_ctrl_msg_hdr \<le> len'"
  shows "apba_handle_message e payload len' s
           = emit ((if payload 8 \<noteq> 0 then [Mods_uart_update_baud (le32_to_cpu payload 4)] else [])
                   @ [Complete BAUD_COMP]) s"
  using assms
  by (simp add: apba_handle_message_def baud_ack_accepted_def baud_ack_baud_def
      sizeof_apba_ctrl_msg_hdr_def)

text \<open>
  C9. For a message of type \<open>BAUD_ACK\<close> of any length from 4 bytes on, the handler reads
  the accepted byte at offset 8 and, when it is not zero, the baud rate at offsets 4 to 7;
  the length is not looked at again. When the length is below the 9 bytes of
  \<open>struct apba_baud_ack\<close>, there is memory that agrees with the buffer on all of its
  bytes and gives a different result: the handler has read past the buffer.
\<close>
theorem baud_ack_reads_past_len:
  assumes "g_ctrl s = CTRL" and "msg_type_of e (hdr_type payload) = APBA_CTRL_BAUD_ACK"
    and "sizeof_apba_ctrl_msg_hdr \<le> len'"
  shows "apba_handle_message e payload len' s
           = emit ((if payload 8 \<noteq> 0 then [Mods_uart_update_baud (le32_to_cpu payload 4)] else [])
                   @ [Complete BAUD_COMP]) s
       \<and> (len' < sizeof_apba_baud_ack \<longrightarrow>
            (\<exists>payload'. (\<forall>i<len'. payload' i = payload i)
               \<and> apba_handle_message e payload' len' s \<noteq> apba_handle_message e payload len' s))"
proof (intro conjI impI)
  show "apba_handle_message e payload len' s
           = emit ((if payload 8 \<noteq> 0 then [Mods_uart_update_baud (le32_to_cpu payload 4)] else [])
                   @ [Complete BAUD_COMP]) s"
    by (rule baud_ack_branch[OF assms])
next
  assume short: "len' < sizeof_apba_baud_ack"
  define payload' where "payload' = payload(8 := (if payload 8 = 0 then 1 else 0))"
  have l4: "4 \<le> len'" using assms(3) by (simp add: sizeof_apba_ctrl_msg_hdr_def)
  have same: "\<forall>i<len'. payload' i = payload i"
    using short by (simp add: payload'_def sizeof_apba_baud_ack_def sizeof_apba_ctrl_msg_hdr_def)
  have ty: "msg_type_of e (hdr_type payload') = APBA_CTRL_BAUD_ACK"
    using assms(2) hdr_type_cong[of payload' payload] by (simp add: payload'_def)
  have "apba_handle_message e payload' len' s \<noteq> apba_handle_message e payload len' s"
    unfolding baud_ack_branch[OF assms] baud_ack_branch[OF assms(1) ty assms(3)]
    by (rule emit_neq) (simp add: payload'_def)
  with same show "\<exists>payload'. (\<forall>i<len'. payload' i = payload i)
               \<and> apba_handle_message e payload' len' s \<noteq> apba_handle_message e payload len' s"
    by blast
qed

theorem baud_ack_reads_past_len_witness:
  "g_ctrl example_sys = CTRL
   \<and> msg_type_of example_env (hdr_type example_baud_ack) = APBA_CTRL_BAUD_ACK
   \<and> sizeof_apba_ctrl_msg_hdr \<le> 4 \<and> 4 < sizeof_apba_baud_ack
   \<and> apba_handle_message example_env example_baud_ack 4 example_sys
       = emit [Mods_uart_update_baud 115200, Complete BAUD_COMP] example_sys"
  using baud_ack_reads_past_len[of example_sys example_env example_baud_ack 4]
  by (simp add: example_sys_def example_env_def example_baud_ack_def hdr_type_def
      le16_to_cpu_def le32_to_cpu_def sizeof_apba_ctrl_msg_hdr_def sizeof_apba_baud_ack_def)

lemma of_value:
  assumes "cur \<le> APBA_LOG_SIZE"
  shows "sint ((word_of_nat cur :: u32) + ucast (sz :: u16) - word_of_nat APBA_LOG_SIZE)
           = int cur + uint sz - 16384"
proof -
  have u: "uint sz < 65536" using unsigned_less[of sz, where 'a=int] by simp
  have u0: "0 \<le> uint sz" by simp
  have b: "(ucast sz :: u32) = word_of_int (uint sz)"
    by simp
  have c: "(word_of_int (int cur + uint sz - 16384) :: u32)
             = word_of_nat cur + word_of_int (uint sz) - word_of_nat APBA_LOG_SIZE"
    unfolding APBA_LOG_SIZE_def
    by (simp only: of_int_diff of_int_add of_int_of_nat_eq of_int_numeral of_nat_numeral)
  have "sint ((word_of_nat cur :: u32) + ucast sz - word_of_nat APBA_LOG_SIZE)
          = signed_take_bit (LENGTH(32) - 1) (int cur + uint sz - 16384)"
    unfolding b c[symmetric] by (simp only: sint_sbintrunc')
  also have "\<dots> = int cur + uint sz - 16384"
    using assms u u0 by (intro signed_take_bit_int_eq_self) (simp_all add: APBA_LOG_SIZE_def)
  finally show ?thesis .
qed

lemma kfifo_out_drop:
  "n \<le> length fifo \<Longrightarrow> snd (snd (kfifo_out fifo n)) = drop n fifo"
  by (simp add: kfifo_out_def kfifo_len_def Let_def min_absorb1)

lemma kfifo_in_all:
  "n \<le> APBA_LOG_SIZE - length fifo \<Longrightarrow> snd (kfifo_in fifo buf n) = fifo @ map buf [0..<n]"
  by (simp add: kfifo_in_def kfifo_len_def Let_def min_absorb1)

lemma log_ind_result:
  assumes n: "unat (hdr_size payload) \<le> APBA_MSG_SIZE_MAX e"
    and mx: "APBA_MSG_SIZE_MAX e \<le> APBA_LOG_SIZE"
    and cur: "length (apba_log_fifo s) \<le> APBA_LOG_SIZE"
  shows "log_ind e payload s =
           s\<lparr>apba_log_fifo :=
                drop (if APBA_LOG_SIZE < length (apba_log_fifo s) + unat (hdr_size payload)
                      then min (length (apba_log_fifo s) + unat (hdr_size payload) - APBA_LOG_SIZE)
                               (APBA_MSG_SIZE_MAX e)
                      else 0) (apba_log_fifo s)
                @ map (\<lambda>i. payload (sizeof_apba_ctrl_msg_hdr + i)) [0..<unat (hdr_size payload)]\<rparr>"
proof -
  define fifo where "fifo = apba_log_fifo s"
  define c where "c = length fifo"
  define k where "k = unat (hdr_size payload)"
  define mxs where "mxs = APBA_MSG_SIZE_MAX e"
  define L where "L = APBA_LOG_SIZE"
  define buf where "buf = (\<lambda>i. payload (sizeof_apba_ctrl_msg_hdr + i))"
  have kn: "k \<le> mxs" "mxs \<le> L" "c \<le> L"
    using n mx cur by (simp_all add: c_def k_def mxs_def L_def fifo_def)
  have L: "int L = 16384" by (simp add: L_def APBA_LOG_SIZE_def)
  have "uint (hdr_size payload) = int k" by (simp add: k_def)
  then have ov: "sint ((word_of_nat (kfifo_len (apba_log_fifo s)) :: u32)
                 + ucast (hdr_size payload) - word_of_nat APBA_LOG_SIZE)
             = int c + int k - int L"
    using of_value[OF cur, of "hdr_size payload"] by (simp add: kfifo_len_def c_def L fifo_def)
  have unfold: "log_ind e payload s =
     s\<lparr>apba_log_fifo :=
         snd (kfifo_in (if int c + int k - int L > 0
                        then snd (snd (kfifo_out fifo (nat (min (int c + int k - int L) (int mxs)))))
                        else fifo) buf k)\<rparr>"
    unfolding log_ind_def Let_def ov
    by (simp only: fifo_def k_def mxs_def buf_def)
  show ?thesis
  proof (cases "L < c + k")
    case True
    then have pos: "int c + int k - int L > 0" by simp
    have ov_le: "c + k - L \<le> mxs" "c + k - L \<le> c"
      using True kn by simp_all
    have "min (int c + int k - int L) (int mxs) = int (c + k - L)"
      using True ov_le(1) by (simp add: min_def of_nat_diff)
    then have ev: "nat (min (int c + int k - int L) (int mxs)) = c + k - L"
      by (simp only: nat_int)
    have mn: "min (c + k - L) mxs = c + k - L" using ov_le(1) by simp
    have room: "k \<le> APBA_LOG_SIZE - length (drop (c + k - L) fifo)"
      using True kn by (simp add: c_def[symmetric] L_def[symmetric])
    have out: "snd (snd (kfifo_out fifo (c + k - L))) = drop (c + k - L) fifo"
      using ov_le(2) by (simp add: kfifo_out_drop c_def)
    have "log_ind e payload s = s\<lparr>apba_log_fifo := drop (c + k - L) fifo @ map buf [0..<k]\<rparr>"
      unfolding unfold by (simp only: pos if_True ev out kfifo_in_all[OF room])
    with True mn show ?thesis
      by (simp only: c_def k_def mxs_def L_def fifo_def buf_def if_True)
  next
    case False
    then have npos: "\<not> int c + int k - int L > 0" by simp
    have room: "k \<le> APBA_LOG_SIZE - length fifo"
      using False by (simp add: c_def[symmetric] L_def[symmetric])
    have "log_ind e payload s = s\<lparr>apba_log_fifo := fifo @ map buf [0..<k]\<rparr>"
      unfolding unfold by (simp only: npos if_False kfifo_in_all[OF room])
    with False show ?thesis
      by (simp only: c_def k_def mxs_def L_def fifo_def buf_def if_False drop_0)
  qed
qed


text \<open>
  C3. For a \<open>LOG_IND\<close> whose payload size is at most \<open>APBA_MSG_SIZE_MAX\<close> (a constant of
  a header outside the sources, here any value up to the FIFO's capacity) and a FIFO
  within its capacity of 16384 bytes: the handler drops exactly \<open>k\<close> of the oldest
  bytes, where \<open>k\<close> is the minimum of (current length + payload size - 16384) and
  \<open>APBA_MSG_SIZE_MAX\<close> when that difference is positive and 0 otherwise, then appends the
  whole payload; the FIFO stays within 16384 bytes.
\<close>
theorem log_ind_evicts_then_appends:
  assumes "g_ctrl s = CTRL" and "sizeof_apba_ctrl_msg_hdr \<le> len'"
    and "msg_type_of e (hdr_type payload) = APBA_CTRL_LOG_IND"
    and "unat (hdr_size payload) \<le> APBA_MSG_SIZE_MAX e"
    and "APBA_MSG_SIZE_MAX e \<le> APBA_LOG_SIZE"
    and "length (apba_log_fifo s) \<le> APBA_LOG_SIZE"
  shows "\<exists>k. k = (if 16384 < length (apba_log_fifo s) + unat (hdr_size payload)
                  then min (length (apba_log_fifo s) + unat (hdr_size payload) - 16384)
                           (APBA_MSG_SIZE_MAX e)
                  else 0)
           \<and> k \<le> length (apba_log_fifo s)
           \<and> apba_handle_message e payload len' s
               = s\<lparr>apba_log_fifo := drop k (apba_log_fifo s)
                     @ map (\<lambda>i. payload (4 + i)) [0..<unat (hdr_size payload)]\<rparr>
           \<and> length (apba_log_fifo (apba_handle_message e payload len' s)) \<le> 16384"
proof -
  define c where "c = length (apba_log_fifo s)"
  define n where "n = unat (hdr_size payload)"
  define mxs where "mxs = APBA_MSG_SIZE_MAX e"
  define L :: nat where "L = 16384"
  define k where "k = (if L < c + n then min (c + n - L) mxs else 0)"
  have b: "n \<le> mxs" "mxs \<le> L" "c \<le> L"
    using assms(4-6) by (simp_all add: n_def mxs_def c_def APBA_LOG_SIZE_def L_def)
  have nL: "n \<le> L" using b by simp
  have kv: "k = (if L < c + n then c + n - L else 0)"
    using b by (simp add: k_def min_def)
  have kc: "k \<le> c" using nL by (auto simp: kv)
  have fit: "c - k + n \<le> L" using b nL by (auto simp: kv)
  have eq: "apba_handle_message e payload len' s
               = s\<lparr>apba_log_fifo := drop k (apba_log_fifo s) @ map (\<lambda>i. payload (4 + i)) [0..<n]\<rparr>"
    using assms(1-3) log_ind_result[OF assms(4-6)]
    by (simp add: apba_handle_message_def k_def c_def n_def mxs_def APBA_LOG_SIZE_def
        sizeof_apba_ctrl_msg_hdr_def L_def)
  have "length (apba_log_fifo (apba_handle_message e payload len' s)) = c - k + n"
    unfolding eq using kc by (simp add: c_def)
  with fit kc eq show ?thesis
    unfolding k_def c_def n_def mxs_def L_def by simp
qed

theorem log_ind_evicts_then_appends_witness:
  "g_ctrl example_full = CTRL \<and> sizeof_apba_ctrl_msg_hdr \<le> 14
   \<and> msg_type_of example_env (hdr_type example_log_ind) = APBA_CTRL_LOG_IND
   \<and> unat (hdr_size example_log_ind) = 10 \<and> 10 \<le> APBA_MSG_SIZE_MAX example_env
   \<and> APBA_MSG_SIZE_MAX example_env \<le> APBA_LOG_SIZE
   \<and> length (apba_log_fifo example_full) = 16380
   \<and> apba_handle_message example_env example_log_ind 14 example_full
       = example_full\<lparr>apba_log_fifo := replicate 16374 66 @ replicate 10 65\<rparr>"
proof -
  have h: "g_ctrl example_full = CTRL" "sizeof_apba_ctrl_msg_hdr \<le> 14"
    "msg_type_of example_env (hdr_type example_log_ind) = APBA_CTRL_LOG_IND"
    "unat (hdr_size example_log_ind) = 10"
    "APBA_MSG_SIZE_MAX example_env = 2048"
    "length (apba_log_fifo example_full) = 16380"
    by (simp_all add: example_full_def example_sys_def sizeof_apba_ctrl_msg_hdr_def
        example_env_def example_log_ind_def hdr_type_def hdr_size_def le16_to_cpu_def)
  have m: "map (\<lambda>i. example_log_ind (4 + i)) [0..<10] = replicate 10 65"
    by (auto simp: list_eq_iff_nth_eq example_log_ind_def)
  have r: "drop 6 (apba_log_fifo example_full) = replicate 16374 66"
    by (simp add: example_full_def)
  from log_ind_evicts_then_appends[of example_full 14 example_env example_log_ind] h m r
  show ?thesis by (simp add: APBA_LOG_SIZE_def)
qed

subsection \<open>Requests with a timed wait\<close>

text \<open>
  C4, as the code has it. When the request is sent and the wait of 1000 ms for its
  completion runs out: \<open>apba_baud_store\<close> unlocks the transmit path and returns
  \<open>-EAGAIN\<close>; \<open>apba_mode_store\<close> returns the byte count it was given, which is also
  what it returns on success; \<open>apba_log_show\<close> returns 0 bytes. In all three the only
  change of the state is the trace of the send and the wait (and the lock and unlock
  for the baud request): the stored mode byte is what it was and no baud update is
  issued.
\<close>
theorem request_timeouts:
  assumes "g_ctrl s = CTRL" and "mods_uart (ctrl_obj s) \<noteq> None"
    and "kstrtoul e buf = Some v"
    and "\<forall>t. send_result e t = 0" and "\<forall>c. wait_result e c = 0"
  shows "apba_baud_store e buf count s
           = (- EAGAIN,
              emit [Mods_uart_apba_send APBA_CTRL_BAUD_REQUEST (cpu_to_le32 (word_of_nat v)),
                    Mods_uart_lock_tx True,
                    Wait_for_completion_timeout BAUD_COMP 1000,
                    Mods_uart_lock_tx False] s)
       \<and> apba_mode_store e buf count s
           = (int count,
              emit [Mods_uart_apba_send APBA_CTRL_MODE_REQUEST [word_of_nat v],
                    Wait_for_completion_timeout MODE_COMP 1000] s)
       \<and> apba_log_show e s
           = (0, [],
              emit [Mods_uart_apba_send APBA_CTRL_LOG_REQUEST [],
                    Wait_for_completion_timeout COMP 1000] s)
       \<and> mode (ctrl_obj (snd (apba_mode_store e buf count s))) = mode (ctrl_obj s)"
  using assms
  by (auto simp: apba_baud_store_def apba_mode_store_def apba_log_show_def Let_def
      APBA_BAUD_REQ_TIMEOUT_def APBA_MODE_REQ_TIMEOUT_def APBA_LOG_REQ_TIMEOUT_def)

theorem request_timeouts_witness:
  "g_ctrl example_sys = CTRL \<and> mods_uart (ctrl_obj example_sys) \<noteq> None
   \<and> kstrtoul example_timeout_env ''3'' = Some 3
   \<and> (\<forall>t. send_result example_timeout_env t = 0)
   \<and> (\<forall>c. wait_result example_timeout_env c = 0)
   \<and> apba_baud_store example_timeout_env ''3'' 2 example_sys
       = (- 11, emit [Mods_uart_apba_send APBA_CTRL_BAUD_REQUEST [3, 0, 0, 0],
                      Mods_uart_lock_tx True,
                      Wait_for_completion_timeout BAUD_COMP 1000,
                      Mods_uart_lock_tx False] example_sys)
   \<and> apba_log_show example_timeout_env example_sys
       = (0, [], emit [Mods_uart_apba_send APBA_CTRL_LOG_REQUEST [],
                       Wait_for_completion_timeout COMP 1000] example_sys)"
  using request_timeouts[of example_sys example_timeout_env "''3''" 3 2]
  by (simp add: example_timeout_env_def example_env_def example_sys_def example_ctrl_def
      EAGAIN_def cpu_to_le32_def)

text \<open>
  Against C4 as stated, in the example configuration: the value \<open>apba_mode_store\<close>
  returns when the wait runs out is the value it returns
  when the completion arrives, and \<open>apba_log_show\<close> returns 0 both when the wait runs
  out and when it reads an empty FIFO after the completion: the caller cannot tell the
  timeout from these results.
\<close>
theorem mode_timeout_returns_count:
  "wait_result example_timeout_env MODE_COMP = 0
   \<and> wait_result example_env MODE_COMP \<noteq> 0
   \<and> fst (apba_mode_store example_timeout_env ''3'' 2 example_sys) = 2
   \<and> fst (apba_mode_store example_env ''3'' 2 example_sys) = 2
   \<and> fst (apba_log_show example_timeout_env example_sys) = 0
   \<and> fst (apba_log_show example_env example_sys) = 0"
  by (simp add: apba_mode_store_def apba_log_show_def Let_def example_timeout_env_def
      example_env_def example_sys_def example_ctrl_def kfifo_out_def kfifo_len_def)

end
